theory Spec2Isabelle
  imports Complex_Main "HOL-Library.AList" "HOL-Library.Log_Nat"
begin

section \<open>Conventions of the embedding\<close>

text \<open>
  The trading core is Python over \<open>float\<close> and numpy arrays.  A finite number is read as
  an exact \<open>real\<close>: rounding of binary64 arithmetic is left out, except in the sections
  on binary64 arithmetic.  These look at the places of the risk manager where one rounding
  decides: the exact equality test between rounded values in the staged closes, and the
  position sizing with the available capital, whose bounds are met or missed by one unit in
  the last place.

  A numpy array element is an \<open>npfloat\<close>: \<open>Some x\<close> for a finite value and \<open>None\<close> for
  NaN.  NaN propagates through arithmetic and makes every ordering comparison false, as in
  numpy.  A numpy division by zero gives NaN or an infinity; the only array division in the
  code whose divisor can be zero is the one of the directional indicators in
  \<open>calculate_adx\<close>, where an infinity turns into NaN in the very next step, so the quotient
  by zero is \<open>None\<close> as well.

  Exceptions are values of the type \<open>error\<close>; a function that can raise returns
  \<open>error + 'a\<close>.
\<close>

datatype error = AttributeError | IndexError | ValueError | ZeroDivisionError

type_synonym npfloat = "real option"

definition lift2 :: "(real \<Rightarrow> real \<Rightarrow> real) \<Rightarrow> npfloat \<Rightarrow> npfloat \<Rightarrow> npfloat" where
  "lift2 f a b = (case a of None \<Rightarrow> None | Some x \<Rightarrow> (case b of None \<Rightarrow> None | Some y \<Rightarrow> Some (f x y)))"

definition fadd :: "npfloat \<Rightarrow> npfloat \<Rightarrow> npfloat" where
  "fadd = lift2 (+)"

definition fsub :: "npfloat \<Rightarrow> npfloat \<Rightarrow> npfloat" where
  "fsub = lift2 (-)"

definition fmul :: "npfloat \<Rightarrow> npfloat \<Rightarrow> npfloat" where
  "fmul = lift2 (*)"

definition fmax :: "npfloat \<Rightarrow> npfloat \<Rightarrow> npfloat" where
  "fmax = lift2 max"

definition fdiv :: "npfloat \<Rightarrow> npfloat \<Rightarrow> npfloat" where
  "fdiv a b = (case a of None \<Rightarrow> None
     | Some x \<Rightarrow> (case b of None \<Rightarrow> None | Some y \<Rightarrow> if y = 0 then None else Some (x / y)))"

definition fabs :: "npfloat \<Rightarrow> npfloat" where
  "fabs a = map_option abs a"

definition fneg :: "npfloat \<Rightarrow> npfloat" where
  "fneg a = map_option uminus a"

definition fgt :: "npfloat \<Rightarrow> npfloat \<Rightarrow> bool" where
  "fgt a b = (case a of None \<Rightarrow> False | Some x \<Rightarrow> (case b of None \<Rightarrow> False | Some y \<Rightarrow> x > y))"

definition flt :: "npfloat \<Rightarrow> npfloat \<Rightarrow> bool" where
  "flt a b = fgt b a"

definition fge :: "npfloat \<Rightarrow> npfloat \<Rightarrow> bool" where
  "fge a b = (case a of None \<Rightarrow> False | Some x \<Rightarrow> (case b of None \<Rightarrow> False | Some y \<Rightarrow> x \<ge> y))"

definition fne :: "npfloat \<Rightarrow> npfloat \<Rightarrow> bool" where
  \<comment> \<open>\<open>!=\<close>: true as soon as one side is NaN\<close>
  "fne a b = (case a of None \<Rightarrow> True | Some x \<Rightarrow> (case b of None \<Rightarrow> True | Some y \<Rightarrow> x \<noteq> y))"

definition fsum :: "npfloat list \<Rightarrow> npfloat" where
  "fsum xs = foldr fadd xs (Some 0)"

definition fmean :: "npfloat list \<Rightarrow> npfloat" where
  \<comment> \<open>\<open>np.mean\<close>; NaN on an empty array\<close>
  "fmean xs = fdiv (fsum xs) (Some (real (length xs)))"

definition nans :: "'a list \<Rightarrow> npfloat list" where
  \<comment> \<open>\<open>np.full_like(data, np.nan)\<close>\<close>
  "nans data = replicate (length data) None"

section \<open>Indicator engine (technical\_analysis.py)\<close>

text \<open>
  Every period passed by the callers is a positive constant (9, 12, 14, 20, 26, 50, 200),
  and the definitions below are the code for a positive period.
\<close>

subsection \<open>EMA\<close>

fun ema_loop :: "real \<Rightarrow> npfloat \<Rightarrow> npfloat list \<Rightarrow> npfloat list" where
  "ema_loop multiplier prev [] = []"
| "ema_loop multiplier prev (x # xs) =
     (let e = fadd (fmul x (Some multiplier)) (fmul prev (Some (1 - multiplier)))
      in e # ema_loop multiplier e xs)"

definition calculate_ema :: "npfloat list \<Rightarrow> nat \<Rightarrow> npfloat list" where
  "calculate_ema data period =
     (if length data < period then nans data
      else let multiplier = 2 / (real period + 1);
               seed = fmean (take period data)
           in replicate period seed @ ema_loop multiplier seed (drop period data))"

subsection \<open>SMA and rolling standard deviation\<close>

definition rolling :: "(npfloat list \<Rightarrow> npfloat) \<Rightarrow> npfloat list \<Rightarrow> nat \<Rightarrow> npfloat list" where
  \<comment> \<open>\<open>pd.Series(data).rolling(window=period)\<close>: NaN until the window is full\<close>
  "rolling f data period =
     map (\<lambda>i. if i + 1 < period then None else f (take period (drop (i + 1 - period) data)))
         [0..<length data]"

definition calculate_sma :: "npfloat list \<Rightarrow> nat \<Rightarrow> npfloat list" where
  "calculate_sma data period =
     (if length data < period then nans data else rolling fmean data period)"

definition fstd :: "npfloat list \<Rightarrow> npfloat" where
  \<comment> \<open>sample standard deviation (ddof = 1) of one window; NaN if the window holds a NaN
      or a single value\<close>
  "fstd xs =
     (case fmean xs of None \<Rightarrow> None
      | Some m \<Rightarrow> if length xs \<le> 1 then None
                  else Some (sqrt ((\<Sum>x\<leftarrow>xs. (the x - m)\<^sup>2) / (real (length xs) - 1))))"

subsection \<open>RSI\<close>

definition np_diff :: "npfloat list \<Rightarrow> npfloat list" where
  "np_diff data = map2 (\<lambda>a b. fsub b a) (butlast data) (tl data)"

definition rsi_value :: "npfloat \<Rightarrow> npfloat \<Rightarrow> npfloat" where
  \<comment> \<open>\<open>rs = up / down if down != 0 else 0\<close>, then \<open>100.0 - 100.0 / (1.0 + rs)\<close>\<close>
  "rsi_value up down =
     (let rs = (if fne down (Some 0) then fdiv up down else Some 0)
      in fsub (Some 100) (fdiv (Some 100) (fadd (Some 1) rs)))"

fun rsi_loop :: "nat \<Rightarrow> npfloat \<Rightarrow> npfloat \<Rightarrow> npfloat list \<Rightarrow> npfloat list" where
  "rsi_loop period up down [] = []"
| "rsi_loop period up down (delta # deltas) =
     (let upval = (if fgt delta (Some 0) then delta else Some 0);
          downval = (if fgt delta (Some 0) then Some 0 else fneg delta);
          up' = fdiv (fadd (fmul up (Some (real period - 1))) upval) (Some (real period));
          down' = fdiv (fadd (fmul down (Some (real period - 1))) downval) (Some (real period))
      in rsi_value up' down' # rsi_loop period up' down' deltas)"

definition calculate_rsi :: "npfloat list \<Rightarrow> nat \<Rightarrow> npfloat list" where
  "calculate_rsi data period =
     (if length data < period + 1 then nans data
      else let deltas = np_diff data;
               seed = take (period + 1) deltas;
               up = fdiv (fsum (filter (\<lambda>d. fge d (Some 0)) seed)) (Some (real period));
               down = fdiv (fneg (fsum (filter (\<lambda>d. flt d (Some 0)) seed))) (Some (real period))
           in replicate period (rsi_value up down)
              @ rsi_loop period up down (drop (period - 1) deltas))"

subsection \<open>MACD and Bollinger bands\<close>

definition calculate_macd ::
  "npfloat list \<Rightarrow> nat \<Rightarrow> nat \<Rightarrow> nat \<Rightarrow> npfloat list \<times> npfloat list \<times> npfloat list" where
  "calculate_macd data fast slow signal =
     (let ema_fast = calculate_ema data fast;
          ema_slow = calculate_ema data slow;
          macd = map2 fsub ema_fast ema_slow;
          signal_line = calculate_ema macd signal;
          histogram = map2 fsub macd signal_line
      in (macd, signal_line, histogram))"

definition calculate_bollinger_bands ::
  "npfloat list \<Rightarrow> nat \<Rightarrow> real \<Rightarrow> npfloat list \<times> npfloat list \<times> npfloat list" where
  "calculate_bollinger_bands data period std_dev =
     (let middle = calculate_sma data period;
          std = rolling fstd data period;
          upper = map2 (\<lambda>m s. fadd m (fmul s (Some std_dev))) middle std;
          lower = map2 (\<lambda>m s. fsub m (fmul s (Some std_dev))) middle std
      in (upper, middle, lower))"

subsection \<open>ATR and ADX\<close>

definition np_roll1 :: "'a list \<Rightarrow> 'a list" where
  \<comment> \<open>\<open>np.roll(a, 1)\<close>\<close>
  "np_roll1 xs = (if xs = [] then [] else last xs # butlast xs)"

definition true_range :: "npfloat \<Rightarrow> npfloat \<Rightarrow> npfloat \<Rightarrow> npfloat" where
  "true_range h l pc = fmax (fsub h l) (fmax (fabs (fsub h pc)) (fabs (fsub l pc)))"

definition calculate_atr ::
  "npfloat list \<Rightarrow> npfloat list \<Rightarrow> npfloat list \<Rightarrow> nat \<Rightarrow> npfloat list" where
  "calculate_atr high low close period =
     (if length high < period then nans high
      else let tr1 = map2 fsub high low;
               tr = map (\<lambda>(h, l, pc). true_range h l pc) (zip high (zip low (np_roll1 close)));
               tr = tr[0 := hd tr1]
           in calculate_sma tr period)"

definition directional :: "npfloat \<Rightarrow> npfloat \<Rightarrow> npfloat" where
  \<comment> \<open>\<open>np.where((a > b) & (a > 0), a, 0)\<close>\<close>
  "directional a b = (if fgt a b \<and> fgt a (Some 0) then a else Some 0)"

definition dx_value :: "npfloat \<Rightarrow> npfloat \<Rightarrow> npfloat" where
  "dx_value di_plus di_minus =
     fdiv (fmul (Some 100) (fabs (fsub di_plus di_minus)))
          (fadd (fadd di_plus di_minus) (Some (1 / 10 ^ 10)))"

definition calculate_adx ::
  "npfloat list \<Rightarrow> npfloat list \<Rightarrow> npfloat list \<Rightarrow> nat \<Rightarrow> npfloat list" where
  "calculate_adx high low close period =
     (if length high < period * 2 then nans high
      else let up_move = map2 fsub (tl high) (butlast high);
               down_move = map2 fsub (butlast low) (tl low);
               pos_dm = map2 directional up_move down_move;
               neg_dm = map2 directional down_move up_move;
               tr = map (\<lambda>(h, l, pc). true_range h l pc)
                        (zip (tl high) (zip (tl low) (butlast close)));
               sma_tr = calculate_sma tr period;
               di_plus = map2 (\<lambda>d t. fmul (Some 100) (fdiv d t)) (calculate_sma pos_dm period) sma_tr;
               di_minus = map2 (\<lambda>d t. fmul (Some 100) (fdiv d t)) (calculate_sma neg_dm period) sma_tr;
               dx = map2 dx_value di_plus di_minus
           in calculate_sma dx period)"

section \<open>Market snapshot builder (technical\_analysis.py)\<close>

record TechnicalIndicators =
  ema_12 :: npfloat
  ema_50 :: npfloat
  ema_200 :: npfloat
  rsi_14 :: npfloat
  macd :: npfloat
  macd_signal :: npfloat
  macd_histogram :: npfloat
  bb_upper :: npfloat
  bb_middle :: npfloat
  bb_lower :: npfloat
  atr_14 :: npfloat
  adx_14 :: npfloat
  volume_ma :: npfloat
  current_volume :: npfloat

text \<open>
  Attribute access by name on the dataclass: the fourteen fields above are all it has, and
  any other name raises \<open>AttributeError\<close>.
\<close>

definition getattr :: "TechnicalIndicators \<Rightarrow> string \<Rightarrow> error + npfloat" where
  "getattr ind name =
     (if name = ''ema_12'' then Inr (ema_12 ind)
      else if name = ''ema_50'' then Inr (ema_50 ind)
      else if name = ''ema_200'' then Inr (ema_200 ind)
      else if name = ''rsi_14'' then Inr (rsi_14 ind)
      else if name = ''macd'' then Inr (macd ind)
      else if name = ''macd_signal'' then Inr (macd_signal ind)
      else if name = ''macd_histogram'' then Inr (macd_histogram ind)
      else if name = ''bb_upper'' then Inr (bb_upper ind)
      else if name = ''bb_middle'' then Inr (bb_middle ind)
      else if name = ''bb_lower'' then Inr (bb_lower ind)
      else if name = ''atr_14'' then Inr (atr_14 ind)
      else if name = ''adx_14'' then Inr (adx_14 ind)
      else if name = ''volume_ma'' then Inr (volume_ma ind)
      else if name = ''current_volume'' then Inr (current_volume ind)
      else Inl AttributeError)"

text \<open>
  A window is the list of its bars, a bar the list of its numbers.  \<open>np.array\<close> wants rows
  of one length, and \<open>data[:, k]\<close> wants that length above \<open>k\<close>.
\<close>

definition column :: "nat \<Rightarrow> real list list \<Rightarrow> npfloat list" where
  \<comment> \<open>\<open>data[:, k].astype(float)\<close>\<close>
  "column k data = map (\<lambda>row. Some (row ! k)) data"

definition process_ohlcv :: "nat \<Rightarrow> real list list \<Rightarrow> error + TechnicalIndicators option" where
  "process_ohlcv min_candles ohlcv_data =
     (if length ohlcv_data < min_candles then Inr None
      else if ohlcv_data = [] then Inl IndexError
      else if \<exists>row \<in> set ohlcv_data. length row \<noteq> length (hd ohlcv_data) then Inl ValueError
      else if length (hd ohlcv_data) \<le> 5 then Inl IndexError
      else let close = column 4 ohlcv_data;
               high = column 3 ohlcv_data;
               low = column 2 ohlcv_data;
               volume = column 5 ohlcv_data;
               (macd_line, signal_line, histogram) = calculate_macd close 12 26 9;
               (upper, middle, lower) = calculate_bollinger_bands close 20 2
           in Inr (Some \<lparr>
                ema_12 = last (calculate_ema close 12),
                ema_50 = last (calculate_ema close 50),
                ema_200 = last (calculate_ema close 200),
                rsi_14 = last (calculate_rsi close 14),
                macd = last macd_line,
                macd_signal = last signal_line,
                macd_histogram = last histogram,
                bb_upper = last upper,
                bb_middle = last middle,
                bb_lower = last lower,
                atr_14 = last (calculate_atr high low close 14),
                adx_14 = last (calculate_adx high low close 14),
                volume_ma = last (calculate_sma volume 50),
                current_volume = last volume \<rparr>))"

definition get_trend :: "TechnicalIndicators \<Rightarrow> string" where
  "get_trend indicators =
     (if fgt (ema_12 indicators) (ema_50 indicators) \<and> fgt (ema_50 indicators) (ema_200 indicators)
      then ''UPTREND''
      else if flt (ema_12 indicators) (ema_50 indicators) \<and> flt (ema_50 indicators) (ema_200 indicators)
      then ''DOWNTREND''
      else ''SIDEWAYS'')"

section \<open>Signal generator (signal\_generator.py)\<close>

datatype SignalType = BUY | SELL | NEUTRAL

record SignalGenerator =
  rsi_oversold :: real
  rsi_overbought :: real
  adx_threshold :: real
  volume_threshold :: real
  min_confidence :: real
  min_candles :: nat

definition SignalGenerator_init :: SignalGenerator where
  \<comment> \<open>the constructor with its default arguments; the processor is \<open>MarketDataProcessor()\<close>\<close>
  "SignalGenerator_init =
     \<lparr> rsi_oversold = 30, rsi_overbought = 70, adx_threshold = 25,
       volume_threshold = 11 / 10, min_confidence = 75 / 100, min_candles = 200 \<rparr>"

text \<open>
  Python's \<open>a or b\<close> evaluates \<open>b\<close> only when \<open>a\<close> is false; \<open>b\<close> may raise.
\<close>

definition py_or :: "bool \<Rightarrow> error + bool \<Rightarrow> error + bool" where
  "py_or a b = (if a then Inr True else b)"

definition check_trend_confirmation ::
  "SignalGenerator \<Rightarrow> TechnicalIndicators \<Rightarrow> string \<Rightarrow> error + bool" where
  "check_trend_confirmation self indicators trend =
     (if trend = ''UPTREND'' then
        (case py_or (fgt (ema_12 indicators) (ema_50 indicators))
                    (map_sum id (\<lambda>c. fgt c (ema_200 indicators)) (getattr indicators ''close'')) of
           Inl e \<Rightarrow> Inl e
         | Inr ema_aligned \<Rightarrow>
             (let trend_strong = fgt (adx_14 indicators) (Some (adx_threshold self - 5))
              in Inr (ema_aligned \<and> trend_strong)))
      else if trend = ''DOWNTREND'' then
        (case py_or (flt (ema_12 indicators) (ema_50 indicators))
                    (map_sum id (\<lambda>c. flt c (ema_200 indicators)) (getattr indicators ''close'')) of
           Inl e \<Rightarrow> Inl e
         | Inr ema_aligned \<Rightarrow>
             (let trend_strong = fgt (adx_14 indicators) (Some (adx_threshold self - 5))
              in Inr (ema_aligned \<and> trend_strong)))
      else Inr False)"

definition check_momentum_signal ::
  "SignalGenerator \<Rightarrow> TechnicalIndicators \<Rightarrow> SignalType \<Rightarrow> error + bool" where
  "check_momentum_signal self indicators signal_type =
     (if signal_type = BUY then
        (let rsi_signal = flt (rsi_14 indicators) (Some (rsi_oversold self + 10))
         in case py_or (fgt (macd_histogram indicators) (Some 0))
                       (map_sum id (\<lambda>prev. fgt (macd_histogram indicators) prev)
                                (getattr indicators ''macd_histogram_prev'')) of
              Inl e \<Rightarrow> Inl e
            | Inr macd_sig \<Rightarrow> Inr (rsi_signal \<and> macd_sig))
      else if signal_type = SELL then
        (let rsi_signal = fgt (rsi_14 indicators) (Some (rsi_overbought self - 10))
         in case py_or (flt (macd_histogram indicators) (Some 0))
                       (map_sum id (\<lambda>prev. flt (macd_histogram indicators) prev)
                                (getattr indicators ''macd_histogram_prev'')) of
              Inl e \<Rightarrow> Inl e
            | Inr macd_sig \<Rightarrow> Inr (rsi_signal \<and> macd_sig))
      else Inr False)"

definition check_bollinger_bands_signal ::
  "TechnicalIndicators \<Rightarrow> real \<Rightarrow> SignalType \<Rightarrow> bool" where
  "check_bollinger_bands_signal indicators current_price signal_type =
     (if signal_type = BUY then
        (let bb_range = fsub (bb_upper indicators) (bb_lower indicators);
             distance_to_lower = fsub (Some current_price) (bb_lower indicators)
         in flt distance_to_lower (fmul bb_range (Some (2 / 10))))
      else if signal_type = SELL then
        (let bb_range = fsub (bb_upper indicators) (bb_lower indicators);
             distance_to_upper = fsub (bb_upper indicators) (Some current_price)
         in flt distance_to_upper (fmul bb_range (Some (2 / 10))))
      else False)"

definition check_volume_confirmation :: "SignalGenerator \<Rightarrow> TechnicalIndicators \<Rightarrow> bool" where
  "check_volume_confirmation self indicators =
     fgt (current_volume indicators) (fmul (volume_ma indicators) (Some (volume_threshold self)))"

definition calculate_position_size_hint :: "real \<Rightarrow> real \<Rightarrow> real" where
  \<comment> \<open>\<open>SignalGenerator._calculate_position_size\<close>\<close>
  "calculate_position_size_hint conf max_position_size = max_position_size * conf"

record TradingSignal =
  signal_type :: SignalType
  confidence :: real
  entry_price :: real
  stop_loss :: npfloat
  take_profit_1 :: npfloat
  take_profit_2 :: npfloat
  take_profit_3 :: npfloat
  position_size_percent :: real
  reasoning :: "string list"
  indicators_snapshot :: "(string \<times> npfloat) list"

definition snapshot_of :: "TechnicalIndicators \<Rightarrow> (string \<times> npfloat) list" where
  "snapshot_of indicators =
     [(''ema_12'', ema_12 indicators), (''ema_50'', ema_50 indicators),
      (''ema_200'', ema_200 indicators), (''rsi_14'', rsi_14 indicators),
      (''macd'', macd indicators), (''atr_14'', atr_14 indicators),
      (''adx_14'', adx_14 indicators)]"

text \<open>
  \<open>reasoning\<close> holds the parts that the code joins with \<open>"; "\<close>, in ASCII.
\<close>

definition generate_buy_signal ::
  "SignalGenerator \<Rightarrow> TechnicalIndicators \<Rightarrow> real \<Rightarrow> real \<Rightarrow> error + TradingSignal option" where
  "generate_buy_signal self indicators current_price atr_multiplier =
     (case check_trend_confirmation self indicators ''UPTREND'' of
        Inl e \<Rightarrow> Inl e
      | Inr trend_ok \<Rightarrow>
          if \<not> trend_ok then Inr None
          else (case check_momentum_signal self indicators BUY of
             Inl e \<Rightarrow> Inl e
           | Inr momentum_ok \<Rightarrow>
               if \<not> momentum_ok then Inr None
               else
                 (let bb = check_bollinger_bands_signal indicators current_price BUY;
                      vol = check_volume_confirmation self indicators;
                      confidence_score = 0 + 30 / 100 + 30 / 100
                         + (if bb then 20 / 100 else 0) + (if vol then 20 / 100 else 0)
                  in if confidence_score < min_confidence self then Inr None
                     else Inr (Some \<lparr>
                       signal_type = BUY,
                       confidence = confidence_score,
                       entry_price = current_price,
                       stop_loss = fsub (Some current_price) (fmul (atr_14 indicators) (Some atr_multiplier)),
                       take_profit_1 = fadd (Some current_price) (fmul (atr_14 indicators) (Some (15 / 10))),
                       take_profit_2 = fadd (Some current_price) (fmul (atr_14 indicators) (Some (25 / 10))),
                       take_profit_3 = fadd (Some current_price) (fmul (atr_14 indicators) (Some 4)),
                       position_size_percent = calculate_position_size_hint confidence_score (10 / 100),
                       reasoning =
                         [''Tendencia alcista confirmada'', ''Senal de momentum alcista'']
                         @ (if bb then [''Precio en banda inferior de Bollinger''] else [])
                         @ (if vol then [''Volumen confirmado''] else []),
                       indicators_snapshot = snapshot_of indicators \<rparr>))))"

definition generate_sell_signal ::
  "SignalGenerator \<Rightarrow> TechnicalIndicators \<Rightarrow> real \<Rightarrow> real \<Rightarrow> error + TradingSignal option" where
  "generate_sell_signal self indicators current_price atr_multiplier =
     (case check_trend_confirmation self indicators ''DOWNTREND'' of
        Inl e \<Rightarrow> Inl e
      | Inr trend_ok \<Rightarrow>
          if \<not> trend_ok then Inr None
          else (case check_momentum_signal self indicators SELL of
             Inl e \<Rightarrow> Inl e
           | Inr momentum_ok \<Rightarrow>
               if \<not> momentum_ok then Inr None
               else
                 (let bb = check_bollinger_bands_signal indicators current_price SELL;
                      vol = check_volume_confirmation self indicators;
                      confidence_score = 0 + 30 / 100 + 30 / 100
                         + (if bb then 20 / 100 else 0) + (if vol then 20 / 100 else 0)
                  in if confidence_score < min_confidence self then Inr None
                     else Inr (Some \<lparr>
                       signal_type = SELL,
                       confidence = confidence_score,
                       entry_price = current_price,
                       stop_loss = fadd (Some current_price) (fmul (atr_14 indicators) (Some atr_multiplier)),
                       take_profit_1 = fsub (Some current_price) (fmul (atr_14 indicators) (Some (15 / 10))),
                       take_profit_2 = fsub (Some current_price) (fmul (atr_14 indicators) (Some (25 / 10))),
                       take_profit_3 = fsub (Some current_price) (fmul (atr_14 indicators) (Some 4)),
                       position_size_percent = calculate_position_size_hint confidence_score (10 / 100),
                       reasoning =
                         [''Tendencia bajista confirmada'', ''Senal de momentum bajista'']
                         @ (if bb then [''Precio en banda superior de Bollinger''] else [])
                         @ (if vol then [''Volumen confirmado''] else []),
                       indicators_snapshot = snapshot_of indicators \<rparr>))))"

definition generate_signal ::
  "SignalGenerator \<Rightarrow> real list list \<Rightarrow> real \<Rightarrow> real \<Rightarrow> error + TradingSignal option" where
  "generate_signal self ohlcv_data current_price atr_multiplier =
     (case process_ohlcv (min_candles self) ohlcv_data of
        Inl e \<Rightarrow> Inl e
      | Inr None \<Rightarrow> Inr None
      | Inr (Some indicators) \<Rightarrow>
          (let trend = get_trend indicators in
           if trend = ''UPTREND'' then
             (case generate_buy_signal self indicators current_price atr_multiplier of
                Inl e \<Rightarrow> Inl e
              | Inr None \<Rightarrow> Inr None
              | Inr (Some buy_signal) \<Rightarrow>
                  if confidence buy_signal \<ge> min_confidence self then Inr (Some buy_signal) else Inr None)
           else if trend = ''DOWNTREND'' then
             (case generate_sell_signal self indicators current_price atr_multiplier of
                Inl e \<Rightarrow> Inl e
              | Inr None \<Rightarrow> Inr None
              | Inr (Some sell_signal) \<Rightarrow>
                  if confidence sell_signal \<ge> min_confidence self then Inr (Some sell_signal) else Inr None)
           else Inr None))"

section \<open>Risk and position manager (risk\_manager.py)\<close>

text \<open>
  The positions are a Python dict, which keeps insertion order: an association list with
  \<open>AList.update\<close> (replace in place, or append) and \<open>AList.delete\<close>.  \<open>save_state\<close> writes
  a file and swallows every exception, so it leaves the manager as it is and is left out;
  the constructor is the one of a manager that finds no state file.  \<open>entry_time\<close> is the
  clock reading handed to \<open>open_position\<close>.  The \<open>float\<close> fields of the three classes
  have the type \<open>'n\<close>: \<open>real\<close> in this section, the binary64 numbers in the section on
  sizing in binary64.
\<close>

datatype PositionStatus = OPEN | PARTIALLY_CLOSED | CLOSED | STOPPED_OUT

record 'n Position =
  position_id :: string
  pair :: string
  side :: string
  entry_price :: 'n
  volume :: 'n
  stop_loss :: 'n
  take_profit_1 :: 'n
  take_profit_2 :: 'n
  take_profit_3 :: 'n
  entry_time :: nat
  status :: PositionStatus
  volume_closed_tp1 :: 'n
  volume_closed_tp2 :: 'n
  volume_closed_tp3 :: 'n
  current_price :: 'n
  unrealized_pnl :: 'n
  realized_pnl :: 'n

record 'n RiskConfig =
  total_capital :: 'n
  risk_per_trade :: 'n
  max_positions :: int
  max_position_size :: 'n
  max_drawdown :: 'n
  max_consecutive_losses :: int
  trailing_stop_enabled :: bool
  trailing_stop_distance :: 'n
  pause_after_max_losses :: bool
  pause_duration_minutes :: int

definition RiskConfig_init :: "real \<Rightarrow> real RiskConfig" where
  \<comment> \<open>\<open>RiskConfig(total_capital=c)\<close> with the defaults of the dataclass\<close>
  "RiskConfig_init c =
     \<lparr> total_capital = c, risk_per_trade = 2 / 100, max_positions = 5,
       max_position_size = 10 / 100, max_drawdown = 15 / 100, max_consecutive_losses = 3,
       trailing_stop_enabled = True, trailing_stop_distance = 5 / 100,
       pause_after_max_losses = True, pause_duration_minutes = 60 \<rparr>"

record 'n RiskManager =
  config :: "'n RiskConfig"
  positions :: "(string \<times> 'n Position) list"
  closed_positions :: "'n Position list"
  consecutive_losses :: int
  total_realized_pnl :: 'n
  peak_capital :: 'n

definition RiskManager_init :: "real RiskConfig \<Rightarrow> real RiskManager" where
  "RiskManager_init cfg =
     \<lparr> config = cfg, positions = [], closed_positions = [], consecutive_losses = 0,
       total_realized_pnl = 0, peak_capital = total_capital cfg \<rparr>"

definition get_open_volume :: "real Position \<Rightarrow> real" where
  "get_open_volume p = volume p - volume_closed_tp1 p - volume_closed_tp2 p - volume_closed_tp3 p"

definition update_current_price :: "real Position \<Rightarrow> real \<Rightarrow> real Position" where
  "update_current_price p price =
     (let p = p\<lparr>current_price := price\<rparr>
      in if side p = ''buy''
         then p\<lparr>unrealized_pnl := (price - entry_price p) * get_open_volume p\<rparr>
         else p\<lparr>unrealized_pnl := (entry_price p - price) * get_open_volume p\<rparr>)"

definition get_current_capital :: "real RiskManager \<Rightarrow> real" where
  "get_current_capital self =
     (let unrealized = (\<Sum>(pid, p)\<leftarrow>positions self. unrealized_pnl p)
      in total_capital (config self) + total_realized_pnl self + unrealized)"

definition can_open_position :: "real RiskManager \<Rightarrow> error + (bool \<times> string)" where
  \<comment> \<open>the reasons without the numbers that the code formats into them\<close>
  "can_open_position self =
     (if int (length (positions self)) \<ge> max_positions (config self)
      then Inr (False, ''Maximo de posiciones alcanzado'')
      else if peak_capital self = 0 then Inl ZeroDivisionError
      else let current_capital = get_current_capital self;
               drawdown = (peak_capital self - current_capital) / peak_capital self
           in if drawdown > max_drawdown (config self)
              then Inr (False, ''Drawdown maximo alcanzado'')
              else if consecutive_losses self \<ge> max_consecutive_losses (config self)
                      \<and> pause_after_max_losses (config self)
              then Inr (False, ''Maximo de perdidas consecutivas'')
              else Inr (True, ''OK''))"

definition open_position ::
  "real RiskManager \<Rightarrow> string \<Rightarrow> string \<Rightarrow> string \<Rightarrow> real \<Rightarrow> real \<Rightarrow> real \<Rightarrow> real \<Rightarrow> real \<Rightarrow> real \<Rightarrow> nat
     \<Rightarrow> error + (real RiskManager \<times> bool)" where
  "open_position self pid pr sd entry vol stop tp1 tp2 tp3 now =
     (case can_open_position self of
        Inl e \<Rightarrow> Inl e
      | Inr (can_open, reason) \<Rightarrow>
          if \<not> can_open then Inr (self, False)
          else let position =
                 \<lparr> position_id = pid, pair = pr, side = sd, entry_price = entry, volume = vol,
                   stop_loss = stop, take_profit_1 = tp1, take_profit_2 = tp2, take_profit_3 = tp3,
                   entry_time = now, status = OPEN,
                   volume_closed_tp1 = 0, volume_closed_tp2 = 0, volume_closed_tp3 = 0,
                   current_price = 0, unrealized_pnl = 0, realized_pnl = 0 \<rparr>
               in Inr (self\<lparr>positions := AList.update pid position (positions self)\<rparr>, True))"

definition update_position_price ::
  "real RiskManager \<Rightarrow> string \<Rightarrow> real \<Rightarrow> error + (real RiskManager \<times> unit)" where
  "update_position_price self pid price =
     (case map_of (positions self) pid of
        None \<Rightarrow> Inr (self, ())
      | Some position \<Rightarrow>
          Inr (self\<lparr>positions := AList.update pid (update_current_price position price) (positions self)\<rparr>, ()))"

definition move_to_closed :: "real RiskManager \<Rightarrow> string \<Rightarrow> real RiskManager" where
  "move_to_closed self pid =
     (case map_of (positions self) pid of
        None \<Rightarrow> self
      | Some position \<Rightarrow>
          self\<lparr>positions := AList.delete pid (positions self),
               closed_positions := closed_positions self @ [position]\<rparr>)"

definition set_position :: "real RiskManager \<Rightarrow> string \<Rightarrow> real Position \<Rightarrow> real RiskManager" where
  \<comment> \<open>the write through the reference \<open>position = self.positions[position_id]\<close>\<close>
  "set_position self pid p = self\<lparr>positions := AList.update pid p (positions self)\<rparr>"

definition close_position_partial ::
  "real RiskManager \<Rightarrow> string \<Rightarrow> int \<Rightarrow> real \<Rightarrow> error + (real RiskManager \<times> real)" where
  "close_position_partial self pid tp_level close_price =
     (case map_of (positions self) pid of
        None \<Rightarrow> Inr (self, 0)
      | Some position \<Rightarrow>
          (case (if tp_level = 1
                 then Some (volume position * (30 / 100),
                            position\<lparr>volume_closed_tp1 := volume position * (30 / 100)\<rparr>)
                 else if tp_level = 2
                 then Some (volume position * (40 / 100),
                            position\<lparr>volume_closed_tp2 := volume position * (40 / 100)\<rparr>)
                 else if tp_level = 3
                 then Some (volume position * (30 / 100),
                            position\<lparr>volume_closed_tp3 := volume position * (30 / 100)\<rparr>)
                 else None) of
             None \<Rightarrow> Inr (self, 0)
           | Some (volume_to_close, position) \<Rightarrow>
               (let pnl = (if side position = ''buy''
                           then (close_price - entry_price position) * volume_to_close
                           else (entry_price position - close_price) * volume_to_close);
                    position = position\<lparr>realized_pnl := realized_pnl position + pnl\<rparr>;
                    self = self\<lparr>total_realized_pnl := total_realized_pnl self + pnl\<rparr>
                in if get_open_volume position = 0
                   then Inr (move_to_closed (set_position self pid (position\<lparr>status := CLOSED\<rparr>)) pid,
                             volume_to_close)
                   else Inr (set_position self pid (position\<lparr>status := PARTIALLY_CLOSED\<rparr>),
                             volume_to_close))))"

definition close_position_stop_loss ::
  "real RiskManager \<Rightarrow> string \<Rightarrow> real \<Rightarrow> error + (real RiskManager \<times> real)" where
  "close_position_stop_loss self pid close_price =
     (case map_of (positions self) pid of
        None \<Rightarrow> Inr (self, 0)
      | Some position \<Rightarrow>
          (let volume_to_close = get_open_volume position;
               pnl = (if side position = ''buy''
                      then (close_price - entry_price position) * volume_to_close
                      else (entry_price position - close_price) * volume_to_close);
               position = position\<lparr>realized_pnl := realized_pnl position + pnl\<rparr>;
               self = self\<lparr>total_realized_pnl := total_realized_pnl self + pnl\<rparr>;
               self = move_to_closed (set_position self pid (position\<lparr>status := STOPPED_OUT\<rparr>)) pid;
               self = (if pnl < 0
                       then self\<lparr>consecutive_losses := consecutive_losses self + 1\<rparr>
                       else self\<lparr>consecutive_losses := 0\<rparr>)
           in Inr (self, volume_to_close)))"

section \<open>Example data\<close>

text \<open>
  The long position of the module's own example (\<open>pos_001\<close>: 0.1 BTC bought at 45000)
  after its first target was taken at 46500.
\<close>

definition pos_001 :: "real Position" where
  "pos_001 =
     \<lparr> position_id = ''pos_001'', pair = ''BTC/USD'', side = ''buy'', entry_price = 45000,
       volume = 1 / 10, stop_loss = 44000, take_profit_1 = 46500, take_profit_2 = 48000,
       take_profit_3 = 50000, entry_time = 0, status = PARTIALLY_CLOSED,
       volume_closed_tp1 = 3 / 100, volume_closed_tp2 = 0, volume_closed_tp3 = 0,
       current_price = 0, unrealized_pnl = 0, realized_pnl = 45 \<rparr>"

definition manager_after_tp1 :: "real RiskManager" where
  "manager_after_tp1 =
     \<lparr> config = RiskConfig_init 10000, positions = [(''pos_001'', pos_001)],
       closed_positions = [], consecutive_losses = 0, total_realized_pnl = 45,
       peak_capital = 10000 \<rparr>"

text \<open>A window of three bars, far below the 200 that the processor asks for.\<close>

definition short_window :: "real list list" where
  "short_window =
     [[1000, 100, 101, 99, 100, 1000], [1001, 100, 101, 99, 100, 1000], [1002, 100, 101, 99, 100, 1000]]"

text \<open>The strictly increasing prices 100, 101, ..., 150 of the specification's RSI scenario.\<close>

definition rising_prices :: "npfloat list" where
  "rising_prices = map (\<lambda>i. Some (100 + real i)) [0..<51]"

text \<open>
  A snapshot of an up-trend (EMA 12 above EMA 50 above EMA 200, ADX 30) whose MACD
  histogram is negative.
\<close>

definition falling_snapshot :: TechnicalIndicators where
  "falling_snapshot =
     \<lparr> ema_12 = Some 105, ema_50 = Some 102, ema_200 = Some 100, rsi_14 = Some 35,
       macd = Some (- 1 / 10), macd_signal = Some (4 / 10), macd_histogram = Some (- 5 / 10),
       bb_upper = Some 110, bb_middle = Some 104, bb_lower = Some 98,
       atr_14 = Some 2, adx_14 = Some 30, volume_ma = Some 1000, current_volume = Some 1200 \<rparr>"

text \<open>
  The windows that the snapshot builder accepts: at least one bar, every bar with the same
  number of fields, six or more.
\<close>

definition well_formed :: "real list list \<Rightarrow> bool" where
  "well_formed w = (w \<noteq> [] \<and> 5 < length (hd w) \<and> list_all (\<lambda>row. length row = length (hd w)) w)"

text \<open>
  A window of 200 equal bars \<open>(timestamp, open, high, low, close, volume)\<close> with open and
  close at 100, high at 101 and low at 99.
\<close>

definition flat_window :: "real list list" where
  "flat_window = map (\<lambda>i. [1000 + real i, 100, 101, 99, 100, 1000]) [0..<200]"

text \<open>
  The DX array inside \<open>calculate_adx\<close>, whose moving average is the ADX (a name for the
  intermediate value, used to state that the last ADX depends on the last bars only).
\<close>

definition dx_series :: "npfloat list \<Rightarrow> npfloat list \<Rightarrow> npfloat list \<Rightarrow> nat \<Rightarrow> npfloat list" where
  "dx_series high low close period =
     (let up_move = map2 fsub (tl high) (butlast high);
          down_move = map2 fsub (butlast low) (tl low);
          pos_dm = map2 directional up_move down_move;
          neg_dm = map2 directional down_move up_move;
          tr = map (\<lambda>(h, l, pc). true_range h l pc)
                   (zip (tl high) (zip (tl low) (butlast close)));
          sma_tr = calculate_sma tr period;
          di_plus = map2 (\<lambda>d t. fmul (Some 100) (fdiv d t)) (calculate_sma pos_dm period) sma_tr;
          di_minus = map2 (\<lambda>d t. fmul (Some 100) (fdiv d t)) (calculate_sma neg_dm period) sma_tr
      in map2 dx_value di_plus di_minus)"

text \<open>
  199 of the flat bars, then a bar that closes at 110 with a high of 111: the three EMAs
  are in the order of an up-trend, and the ADX is 0.
\<close>

definition spike_window :: "real list list" where
  "spike_window =
     map (\<lambda>i. [1000 + real i, 100, 101, 99, 100, 1000]) [0..<199] @ [[1199, 100, 111, 99, 110, 1000]]"

text \<open>
  172 bars between 60 and 150 that open and close at 100; then 26 more whose low rises by
  one a bar from 61 to 86; then a bar that closes at 110 and a bar that falls back to 93.
  The EMAs are in the order of an up-trend, the low has risen for 28 bars, and the MACD
  histogram is negative.
\<close>

definition reversal_window :: "real list list" where
  "reversal_window =
     map (\<lambda>i. [1000 + real i, 100, 150, 60, 100, 1000]) [0..<172]
     @ map (\<lambda>j. [1172 + real j, 100, 150, 61 + real j, 100, 1000]) [0..<26]
     @ [[1198, 100, 150, 87, 110, 1000], [1199, 110, 150, 88, 93, 1000]]"

section \<open>Binary64 arithmetic for the staged closes\<close>

text \<open>
  \<open>close_position_partial\<close> decides between \<open>CLOSED\<close> and \<open>PARTIALLY_CLOSED\<close> by the test
  \<open>position.get_open_volume() == 0\<close> on Python floats, so here the rounding decides the
  branch.  A finite binary64 number is a pair of a mantissa and an exponent, of value
  mantissa \<times> 2 ^ exponent; the result of an operation is the exact result rounded to 53
  bits, to nearest, ties to even (no overflow, underflow or subnormal number arises for
  the values below).  \<open>f64_of_rat p q\<close> is the double of the decimal literal p/q: the
  quotient is cut with a sticky bit below the 55th bit and then rounded.
\<close>

type_synonym f64 = "int \<times> int"

definition f64_val :: "f64 \<Rightarrow> real" where
  "f64_val a = real_of_int (fst a) * 2 powr real_of_int (snd a)"

definition rne :: "int \<Rightarrow> nat \<Rightarrow> int" where
  "rne m k =
     (if k = 0 then m
      else let q = m div 2 ^ k; r = m mod 2 ^ k; half = 2 ^ (k - 1)
           in if r < half \<or> (r = half \<and> even q) then q else q + 1)"

definition round53 :: "int \<Rightarrow> int \<Rightarrow> f64" where
  "round53 m e = (let k = nat (bitlen \<bar>m\<bar> - 53) in (rne m k, e + int k))"

definition f64_of_rat :: "int \<Rightarrow> int \<Rightarrow> f64" where
  "f64_of_rat p q =
     (let s = nat (bitlen q - bitlen p + 55); n = p * 2 ^ s
      in round53 (2 * (n div q) + (if n mod q = 0 then 0 else 1)) (- int s - 1))"

definition f64_mul :: "f64 \<Rightarrow> f64 \<Rightarrow> f64" where
  "f64_mul a b = round53 (fst a * fst b) (snd a + snd b)"

definition f64_sub :: "f64 \<Rightarrow> f64 \<Rightarrow> f64" where
  "f64_sub a b =
     (let e = min (snd a) (snd b)
      in round53 (fst a * 2 ^ nat (snd a - e) - fst b * 2 ^ nat (snd b - e)) e)"

text \<open>
  \<open>Position.get_open_volume\<close> on doubles, and its value once the three levels have
  recorded \<open>volume * 0.30\<close>, \<open>volume * 0.40\<close> and \<open>volume * 0.30\<close>.
\<close>

definition get_open_volume_f64 :: "f64 \<Rightarrow> f64 \<Rightarrow> f64 \<Rightarrow> f64 \<Rightarrow> f64" where
  "get_open_volume_f64 vol closed_tp1 closed_tp2 closed_tp3 =
     f64_sub (f64_sub (f64_sub vol closed_tp1) closed_tp2) closed_tp3"

definition staged_residual_f64 :: "f64 \<Rightarrow> f64" where
  "staged_residual_f64 vol =
     get_open_volume_f64 vol (f64_mul vol (f64_of_rat 30 100)) (f64_mul vol (f64_of_rat 40 100))
       (f64_mul vol (f64_of_rat 30 100))"

section \<open>Position sizing and available capital in binary64\<close>

text \<open>
  \<open>calculate_position_size\<close> clamps the volume by two quotients and
  \<open>get_available_capital\<close> subtracts a sum of products, all in binary64: whether the notional
  of the clamped volume stays within its bound is decided by the rounding of the quotient
  and of the product.  This section is the part of the manager that sizes, opens and marks
  a position, over the binary64 numbers of the section before: finite numbers with a
  correctly rounded result for every operation.  The exponent is not bounded, so an
  overflow to an infinity, NaN and the subnormal numbers are outside the model.

  Two pairs can denote the same number, so the comparisons of the code (\<open>==\<close>, \<open><\<close>, \<open><=\<close>)
  are comparisons of the mantissas at the smaller of the two exponents.  Python's
  \<open>min(a, b)\<close> is \<open>b\<close> when \<open>b < a\<close> and \<open>a\<close> otherwise, and its \<open>sum\<close> adds from the left,
  starting from the integer 0.  A division by zero raises \<open>ZeroDivisionError\<close> before
  \<open>f64_div\<close> is reached.
\<close>

definition f64_zero :: f64 where
  "f64_zero = (0, 0)"

definition f64_add :: "f64 \<Rightarrow> f64 \<Rightarrow> f64" where
  "f64_add a b =
     (let e = min (snd a) (snd b)
      in round53 (fst a * 2 ^ nat (snd a - e) + fst b * 2 ^ nat (snd b - e)) e)"

definition f64_div :: "f64 \<Rightarrow> f64 \<Rightarrow> f64" where
  \<comment> \<open>the quotient, cut with a sticky bit below the 55th bit and then rounded; the sign
     goes to the numerator\<close>
  "f64_div a b =
     (let p = (if fst b < 0 then - fst a else fst a);
          q = \<bar>fst b\<bar>;
          s = nat (bitlen q - bitlen \<bar>p\<bar> + 55);
          n = p * 2 ^ s
      in round53 (2 * (n div q) + (if n mod q = 0 then 0 else 1)) (snd a - snd b - int s - 1))"

definition f64_abs :: "f64 \<Rightarrow> f64" where
  "f64_abs a = (\<bar>fst a\<bar>, snd a)"

definition f64_lt :: "f64 \<Rightarrow> f64 \<Rightarrow> bool" where
  "f64_lt a b =
     (let e = min (snd a) (snd b) in fst a * 2 ^ nat (snd a - e) < fst b * 2 ^ nat (snd b - e))"

definition f64_le :: "f64 \<Rightarrow> f64 \<Rightarrow> bool" where
  "f64_le a b =
     (let e = min (snd a) (snd b) in fst a * 2 ^ nat (snd a - e) \<le> fst b * 2 ^ nat (snd b - e))"

definition f64_eq :: "f64 \<Rightarrow> f64 \<Rightarrow> bool" where
  "f64_eq a b =
     (let e = min (snd a) (snd b) in fst a * 2 ^ nat (snd a - e) = fst b * 2 ^ nat (snd b - e))"

definition f64_min :: "f64 \<Rightarrow> f64 \<Rightarrow> f64" where
  "f64_min a b = (if f64_lt b a then b else a)"

definition f64_sum :: "f64 list \<Rightarrow> f64" where
  "f64_sum xs = foldl f64_add f64_zero xs"

definition RiskConfig_init_f64 :: "f64 \<Rightarrow> f64 RiskConfig" where
  \<comment> \<open>\<open>RiskConfig(total_capital=c)\<close> with the defaults of the dataclass\<close>
  "RiskConfig_init_f64 c =
     \<lparr> total_capital = c, risk_per_trade = f64_of_rat 2 100, max_positions = 5,
       max_position_size = f64_of_rat 10 100, max_drawdown = f64_of_rat 15 100,
       max_consecutive_losses = 3, trailing_stop_enabled = True,
       trailing_stop_distance = f64_of_rat 5 100,
       pause_after_max_losses = True, pause_duration_minutes = 60 \<rparr>"

definition RiskManager_init_f64 :: "f64 RiskConfig \<Rightarrow> f64 RiskManager" where
  "RiskManager_init_f64 cfg =
     \<lparr> config = cfg, positions = [], closed_positions = [], consecutive_losses = 0,
       total_realized_pnl = f64_zero, peak_capital = total_capital cfg \<rparr>"

definition Position_init_f64 ::
  "string \<Rightarrow> string \<Rightarrow> string \<Rightarrow> f64 \<Rightarrow> f64 \<Rightarrow> f64 \<Rightarrow> f64 \<Rightarrow> f64 \<Rightarrow> f64 \<Rightarrow> nat \<Rightarrow> f64 Position" where
  \<comment> \<open>the call \<open>Position(position_id=..., ..., entry_time=...)\<close> of \<open>open_position\<close>, with
     the defaults of the dataclass\<close>
  "Position_init_f64 pid pr sd entry vol stop tp1 tp2 tp3 now =
     \<lparr> position_id = pid, pair = pr, side = sd, entry_price = entry, volume = vol,
       stop_loss = stop, take_profit_1 = tp1, take_profit_2 = tp2, take_profit_3 = tp3,
       entry_time = now, status = OPEN,
       volume_closed_tp1 = f64_zero, volume_closed_tp2 = f64_zero, volume_closed_tp3 = f64_zero,
       current_price = f64_zero, unrealized_pnl = f64_zero, realized_pnl = f64_zero \<rparr>"

definition open_volume_f64 :: "f64 Position \<Rightarrow> f64" where
  \<comment> \<open>\<open>Position.get_open_volume\<close> of a position\<close>
  "open_volume_f64 p =
     get_open_volume_f64 (volume p) (volume_closed_tp1 p) (volume_closed_tp2 p) (volume_closed_tp3 p)"

definition update_current_price_f64 :: "f64 Position \<Rightarrow> f64 \<Rightarrow> f64 Position" where
  "update_current_price_f64 p price =
     (let p = p\<lparr>current_price := price\<rparr>
      in if side p = ''buy''
         then p\<lparr>unrealized_pnl := f64_mul (f64_sub price (entry_price p)) (open_volume_f64 p)\<rparr>
         else p\<lparr>unrealized_pnl := f64_mul (f64_sub (entry_price p) price) (open_volume_f64 p)\<rparr>)"

definition get_current_capital_f64 :: "f64 RiskManager \<Rightarrow> f64" where
  "get_current_capital_f64 self =
     (let unrealized = f64_sum (map (\<lambda>(pid, p). unrealized_pnl p) (positions self))
      in f64_add (f64_add (total_capital (config self)) (total_realized_pnl self)) unrealized)"

definition capital_in_use_f64 :: "f64 RiskManager \<Rightarrow> f64" where
  \<comment> \<open>the local \<open>capital_in_use\<close> of \<open>get_available_capital\<close>\<close>
  "capital_in_use_f64 self =
     f64_sum (map (\<lambda>(pid, p). f64_mul (entry_price p) (open_volume_f64 p)) (positions self))"

definition get_available_capital_f64 :: "f64 RiskManager \<Rightarrow> f64" where
  "get_available_capital_f64 self =
     (let capital_in_use = capital_in_use_f64 self
      in f64_sub (get_current_capital_f64 self) capital_in_use)"

definition can_open_position_f64 :: "f64 RiskManager \<Rightarrow> error + (bool \<times> string)" where
  \<comment> \<open>the reasons without the numbers that the code formats into them\<close>
  "can_open_position_f64 self =
     (if int (length (positions self)) \<ge> max_positions (config self)
      then Inr (False, ''Maximo de posiciones alcanzado'')
      else if f64_eq (peak_capital self) f64_zero then Inl ZeroDivisionError
      else let current_capital = get_current_capital_f64 self;
               drawdown = f64_div (f64_sub (peak_capital self) current_capital) (peak_capital self)
           in if f64_lt (max_drawdown (config self)) drawdown
              then Inr (False, ''Drawdown maximo alcanzado'')
              else if consecutive_losses self \<ge> max_consecutive_losses (config self)
                      \<and> pause_after_max_losses (config self)
              then Inr (False, ''Maximo de perdidas consecutivas'')
              else Inr (True, ''OK''))"

definition calculate_position_size_f64 ::
  "f64 RiskManager \<Rightarrow> f64 \<Rightarrow> f64 \<Rightarrow> f64 \<Rightarrow> error + f64" where
  "calculate_position_size_f64 self entry stop conf =
     (let risk_amount =
            f64_mul (f64_mul (total_capital (config self)) (risk_per_trade (config self))) conf;
          risk_per_unit = f64_abs (f64_sub entry stop)
      in if f64_eq risk_per_unit f64_zero then Inr f64_zero
         else if f64_eq entry f64_zero then Inl ZeroDivisionError
         else let vol = f64_div risk_amount risk_per_unit;
                  max_volume =
                    f64_div (f64_mul (total_capital (config self)) (max_position_size (config self)))
                      entry;
                  vol = f64_min vol max_volume;
                  available_capital = get_available_capital_f64 self;
                  max_volume_by_capital = f64_div available_capital entry;
                  vol = f64_min vol max_volume_by_capital
              in Inr vol)"

definition open_position_f64 ::
  "f64 RiskManager \<Rightarrow> string \<Rightarrow> string \<Rightarrow> string \<Rightarrow> f64 \<Rightarrow> f64 \<Rightarrow> f64 \<Rightarrow> f64 \<Rightarrow> f64 \<Rightarrow> f64 \<Rightarrow> nat
     \<Rightarrow> error + (f64 RiskManager \<times> bool)" where
  "open_position_f64 self pid pr sd entry vol stop tp1 tp2 tp3 now =
     (case can_open_position_f64 self of
        Inl e \<Rightarrow> Inl e
      | Inr (can_open, reason) \<Rightarrow>
          if \<not> can_open then Inr (self, False)
          else let position = Position_init_f64 pid pr sd entry vol stop tp1 tp2 tp3 now
               in Inr (self\<lparr>positions := AList.update pid position (positions self)\<rparr>, True))"

definition update_position_price_f64 ::
  "f64 RiskManager \<Rightarrow> string \<Rightarrow> f64 \<Rightarrow> error + (f64 RiskManager \<times> unit)" where
  "update_position_price_f64 self pid price =
     (case map_of (positions self) pid of
        None \<Rightarrow> Inr (self, ())
      | Some position \<Rightarrow>
          Inr (self\<lparr>positions :=
                      AList.update pid (update_current_price_f64 position price) (positions self)\<rparr>, ()))"

subsection \<open>Example managers\<close>

text \<open>A manager with a capital of 10000 and the default configuration, before any trade.\<close>

definition manager_10000 :: "f64 RiskManager" where
  "manager_10000 = RiskManager_init_f64 (RiskConfig_init_f64 (10000, 0))"

text \<open>
  A short position: 10 units sold at 100, the size the manager computes for a stop at
  110 (the double 10 as the division returns it), and the manager that holds it.
\<close>

definition short_1 :: "f64 Position" where
  "short_1 =
     Position_init_f64 ''short_1'' ''BTC/USD'' ''sell'' (100, 0) (5629499534213120, - 49) (110, 0)
       (85, 0) (75, 0) (60, 0) 0"

definition manager_short :: "f64 Position \<Rightarrow> f64 RiskManager" where
  "manager_short p = manager_10000\<lparr>positions := [(''short_1'', p)]\<rparr>"

definition manager_short_marked :: "f64 RiskManager" where
  \<comment> \<open>\<open>short_1\<close> marked at a price of 1100: an unrealized loss of 10000\<close>
  "manager_short_marked =
     manager_short (short_1\<lparr>current_price := (1100, 0),
                            unrealized_pnl := (- 5497558138880000, - 39)\<rparr>)"

text \<open>
  A manager that may put its whole capital into one position
  (\<open>RiskConfig(total_capital=10000, max_position_size=1.0)\<close>), and the long position it sizes
  for an entry at 145 and a stop at 144: 68.96551724137932 units.
\<close>

definition manager_whole :: "f64 RiskManager" where
  "manager_whole =
     RiskManager_init_f64 ((RiskConfig_init_f64 (10000, 0))\<lparr>max_position_size := (1, 0)\<rparr>)"

definition long_1 :: "f64 Position" where
  "long_1 =
     Position_init_f64 ''long_1'' ''BTC/USD'' ''buy'' (145, 0) (4853016839838897, - 46) (144, 0)
       (150, 0) (155, 0) (160, 0) 0"

definition manager_long :: "f64 RiskManager" where
  "manager_long = manager_whole\<lparr>positions := [(''long_1'', long_1)]\<rparr>"

section \<open>Arithmetic on array elements\<close>

lemma fop_simps [simp]:
  "fadd (Some x) (Some y) = Some (x + y)" "fadd None b = None" "fadd a None = None"
  "fsub (Some x) (Some y) = Some (x - y)" "fsub None b = None" "fsub a None = None"
  "fmul (Some x) (Some y) = Some (x * y)" "fmul None b = None" "fmul a None = None"
  "fmax (Some x) (Some y) = Some (max x y)" "fmax None b = None" "fmax a None = None"
  "fdiv (Some x) (Some y) = (if y = 0 then None else Some (x / y))" "fdiv None b = None" "fdiv a None = None"
  "fabs (Some x) = Some \<bar>x\<bar>" "fabs None = None"
  "fneg (Some x) = Some (- x)" "fneg None = None"
  by (simp_all add: fadd_def fsub_def fmul_def fmax_def fdiv_def fabs_def fneg_def lift2_def
      split: option.splits)

lemma fcmp_simps [simp]:
  "fgt (Some x) (Some y) = (y < x)" "fgt None b = False" "fgt a None = False"
  "flt (Some x) (Some y) = (x < y)" "flt None b = False" "flt a None = False"
  "fge (Some x) (Some y) = (y \<le> x)" "fge None b = False" "fge a None = False"
  "fne (Some x) (Some y) = (x \<noteq> y)" "fne None b = True" "fne a None = True"
  by (simp_all add: fgt_def flt_def fge_def fne_def split: option.splits)

lemma foldr_fadd_replicate:
  "foldr fadd (replicate n (Some c)) (Some z) = Some (real n * c + z)"
  by (induction n) (simp_all add: algebra_simps)

lemma fsum_append: "fsum (xs @ ys) = foldr fadd xs (fsum ys)"
  by (simp add: fsum_def)

lemma fsum_replicate: "fsum (replicate n (Some c)) = Some (real n * c)"
  using foldr_fadd_replicate [of n c 0] by (simp add: fsum_def del: foldr_replicate)

lemma fmean_replicate: "0 < n \<Longrightarrow> fmean (replicate n (Some c)) = Some c"
  by (simp add: fmean_def fsum_replicate)

section \<open>Properties of the indicator engine\<close>

subsection \<open>RSI of a series without losses\<close>

lemma rsi_value_no_loss: "rsi_value up (Some 0) = Some 0"
  by (simp add: rsi_value_def)

lemma rsi_loop_no_loss:
  assumes "0 < period" and "\<forall>d \<in> set deltas. fge d (Some 0)"
  shows "rsi_loop period up (Some 0) deltas = replicate (length deltas) (Some 0)"
  using assms(2)
proof (induction deltas arbitrary: up)
  case Nil
  then show ?case by simp
next
  case (Cons d ds)
  from Cons.prems obtain x where d: "d = Some x" and x: "0 \<le> x"
    by (cases d) auto
  have down: "fdiv (fadd (fmul (Some 0) (Some (real period - 1)))
                 (if fgt d (Some 0) then Some 0 else fneg d)) (Some (real period)) = Some 0"
    using assms(1) d x by auto
  from Cons.prems have rest: "\<forall>d \<in> set ds. fge d (Some 0)" by simp
  show ?case
    by (simp add: Let_def down rsi_value_no_loss Cons.IH [OF rest] del: fop_simps)
qed

lemma length_np_diff: "length (np_diff data) = length data - 1"
  by (simp add: np_diff_def)

lemma np_diff_nth:
  "i < length data - 1 \<Longrightarrow> np_diff data ! i = fsub (data ! Suc i) (data ! i)"
  by (simp add: np_diff_def nth_butlast nth_tl)

text \<open>
  When no price of the series is below its predecessor, the average loss is 0 at every
  index, \<open>rs\<close> is set to 0 and the RSI is 0 everywhere.
\<close>

lemma calculate_rsi_no_loss:
  assumes period: "0 < period" and len: "period + 1 \<le> length data"
    and rising: "\<forall>d \<in> set (np_diff data). fge d (Some 0)"
  shows "calculate_rsi data period = replicate (length data) (Some 0)"
proof -
  let ?deltas = "np_diff data"
  have seed: "filter (\<lambda>d. flt d (Some 0)) (take (period + 1) ?deltas) = []"
  proof -
    have "\<forall>d \<in> set (take (period + 1) ?deltas). \<not> flt d (Some 0)"
    proof
      fix d assume "d \<in> set (take (period + 1) ?deltas)"
      then have "d \<in> set ?deltas" by (rule in_set_takeD)
      with rising have "fge d (Some 0)" by blast
      then show "\<not> flt d (Some 0)" by (cases d) auto
    qed
    then show ?thesis by (simp add: filter_empty_conv)
  qed
  define up where
    "up = fdiv (fsum (filter (\<lambda>d. fge d (Some 0)) (take (period + 1) ?deltas))) (Some (real period))"
  define down where
    "down = fdiv (fneg (fsum (filter (\<lambda>d. flt d (Some 0)) (take (period + 1) ?deltas)))) (Some (real period))"
  define rest where "rest = drop (period - 1) ?deltas"
  have down: "down = Some 0"
    unfolding down_def seed using period by (simp add: fsum_def)
  have rest: "\<forall>d \<in> set rest. fge d (Some 0)"
    unfolding rest_def using rising by (meson in_set_dropD)
  have "calculate_rsi data period = replicate period (rsi_value up down) @ rsi_loop period up down rest"
    using len by (simp add: calculate_rsi_def Let_def up_def down_def rest_def)
  also have "\<dots> = replicate period (Some 0) @ replicate (length rest) (Some 0)"
    by (simp only: down rsi_value_no_loss rsi_loop_no_loss [OF period rest])
  also have "\<dots> = replicate (length data) (Some 0)"
    using len period by (simp add: rest_def length_np_diff replicate_add [symmetric])
  finally show ?thesis .
qed

text \<open>
  C3 (the code against the claim): on the prices 100, 101, ..., 150 with period 14 the
  average loss is 0 at every index, and \<open>calculate_rsi\<close> returns 0 at every index, not 100.
\<close>

theorem rsi_of_rising_prices_is_zero:
  "calculate_rsi rising_prices 14 = replicate 51 (Some 0)
   \<and> last (calculate_rsi rising_prices 14) \<noteq> Some 100"
proof -
  have "\<forall>d \<in> set (np_diff rising_prices). fge d (Some 0)"
    unfolding all_set_conv_all_nth
    by (auto simp: length_np_diff np_diff_nth rising_prices_def)
  then have "calculate_rsi rising_prices 14 = replicate (length rising_prices) (Some 0)"
    by (intro calculate_rsi_no_loss) (simp_all add: rising_prices_def)
  then have eq: "calculate_rsi rising_prices 14 = replicate 51 (Some 0)"
    by (simp add: rising_prices_def)
  have "last (replicate 51 (Some (0::real))) = Some 0" by simp
  with eq show ?thesis by simp
qed

section \<open>Properties of the snapshot builder and the signal generator\<close>

subsection \<open>Insufficient data\<close>

text \<open>
  C10: on a window shorter than the configured minimum, \<open>process_ohlcv\<close> returns \<open>None\<close>
  without building a snapshot, and \<open>generate_signal\<close>, whose processor has the minimum
  \<open>min_candles\<close>, returns \<open>None\<close> and raises nothing.
\<close>

theorem insufficient_data_no_signal:
  "(length ohlcv_data < n \<longrightarrow> process_ohlcv n ohlcv_data = Inr None)
   \<and> (length ohlcv_data < min_candles self \<longrightarrow>
        generate_signal self ohlcv_data price mult = Inr None)"
  by (simp add: process_ohlcv_def generate_signal_def)

theorem insufficient_data_no_signal_witness:
  "length short_window < 200
   \<and> length short_window < min_candles SignalGenerator_init
   \<and> process_ohlcv 200 short_window = Inr None
   \<and> generate_signal SignalGenerator_init short_window 100 2 = Inr None"
proof -
  have short: "length short_window < 200" "length short_window < min_candles SignalGenerator_init"
    by (simp_all add: short_window_def SignalGenerator_init_def)
  from insufficient_data_no_signal [of short_window 200 SignalGenerator_init 100 2] short
  show ?thesis by simp
qed

subsection \<open>The fields that the snapshot does not have\<close>

lemma getattr_close: "getattr ind ''close'' = Inl AttributeError"
  by (simp add: getattr_def)

lemma getattr_macd_histogram_prev: "getattr ind ''macd_histogram_prev'' = Inl AttributeError"
  by (simp add: getattr_def)

text \<open>
  The momentum check returns only when the histogram is on the side of the signal; in
  every other case it reads \<open>macd_histogram_prev\<close> and raises.
\<close>

lemma check_momentum_signal_buy:
  "check_momentum_signal self ind BUY =
     (if fgt (macd_histogram ind) (Some 0)
      then Inr (flt (rsi_14 ind) (Some (rsi_oversold self + 10)))
      else Inl AttributeError)"
  by (simp add: check_momentum_signal_def py_or_def getattr_macd_histogram_prev)

lemma check_momentum_signal_sell:
  "check_momentum_signal self ind SELL =
     (if flt (macd_histogram ind) (Some 0)
      then Inr (fgt (rsi_14 ind) (Some (rsi_overbought self - 10)))
      else Inl AttributeError)"
  by (simp add: check_momentum_signal_def py_or_def getattr_macd_histogram_prev)

text \<open>
  C2 (the code against the claim): on an up-trend snapshot with RSI 35 and a histogram of
  -0.5 the momentum condition of the claim depends on the previous histogram value; the
  check raises \<open>AttributeError\<close> instead of answering, and so does the buy signal.
\<close>

theorem momentum_check_raises:
  "check_momentum_signal SignalGenerator_init falling_snapshot BUY = Inl AttributeError
   \<and> generate_buy_signal SignalGenerator_init falling_snapshot 104 2 = Inl AttributeError"
  by (simp add: check_momentum_signal_buy generate_buy_signal_def check_trend_confirmation_def
        py_or_def falling_snapshot_def SignalGenerator_init_def)

subsection \<open>The last value of a moving average\<close>

lemma length_rolling [simp]: "length (rolling f xs p) = length xs"
  by (simp add: rolling_def)

lemma length_calculate_sma [simp]: "length (calculate_sma xs p) = length xs"
  by (simp add: calculate_sma_def nans_def)

lemma rolling_nth:
  "i < length xs \<Longrightarrow>
     rolling f xs p ! i = (if i + 1 < p then None else f (take p (drop (i + 1 - p) xs)))"
  by (simp add: rolling_def)

lemma calculate_sma_last:
  assumes "0 < p" and "p \<le> length xs"
  shows "last (calculate_sma xs p) = fmean (drop (length xs - p) xs)"
proof -
  from assms have ne: "calculate_sma xs p \<noteq> []"
    by (metis length_calculate_sma length_0_conv not_less order.strict_trans2)
  have "last (calculate_sma xs p) = calculate_sma xs p ! (length xs - 1)"
    using ne by (simp add: last_conv_nth)
  also have "\<dots> = rolling fmean xs p ! (length xs - 1)"
    using assms by (simp add: calculate_sma_def)
  also have "\<dots> = fmean (take p (drop (length xs - p) xs))"
  proof -
    from assms have "Suc (length xs - 1) = length xs" by simp
    with assms show ?thesis by (simp add: rolling_nth)
  qed
  also have "take p (drop (length xs - p) xs) = drop (length xs - p) xs"
    using assms by simp
  finally show ?thesis .
qed

subsection \<open>The snapshot of a well-formed window\<close>

lemma process_ohlcv_snapshot:
  assumes "n \<le> length w" and "well_formed w"
  shows "\<exists>ind. process_ohlcv n w = Inr (Some ind)
     \<and> ema_12 ind = last (calculate_ema (column 4 w) 12)
     \<and> ema_50 ind = last (calculate_ema (column 4 w) 50)
     \<and> ema_200 ind = last (calculate_ema (column 4 w) 200)
     \<and> macd_histogram ind = last (snd (snd (calculate_macd (column 4 w) 12 26 9)))
     \<and> atr_14 ind = last (calculate_atr (column 3 w) (column 2 w) (column 4 w) 14)
     \<and> adx_14 ind = last (calculate_adx (column 3 w) (column 2 w) (column 4 w) 14)"
proof -
  from assms have g1: "(length w < n) = False" by simp
  from assms have g2: "(w = []) = False"
    unfolding well_formed_def by blast
  from assms have g3: "(\<exists>row \<in> set w. length row \<noteq> length (hd w)) = False"
    unfolding well_formed_def list_all_iff by blast
  from assms have g4: "(length (hd w) \<le> 5) = False"
    unfolding well_formed_def by (simp only: not_le [symmetric] simp_thms)
  show ?thesis
    unfolding process_ohlcv_def Let_def split_beta
    by (simp add: g1 g2 g3 g4)
qed

subsection \<open>ATR of the flat window\<close>

lemma np_roll1_replicate: "np_roll1 (replicate n c) = replicate n c"
proof (cases n)
  case 0
  then show ?thesis by (simp add: np_roll1_def)
next
  case (Suc m)
  have snoc: "replicate (Suc m) c = replicate m c @ [c]"
    by (simp add: replicate_append_same)
  have "np_roll1 (replicate m c @ [c]) = c # replicate m c"
    by (simp add: np_roll1_def)
  with Suc snoc show ?thesis by simp
qed

lemma calculate_atr_replicate:
  assumes "0 < n"
  shows "calculate_atr (replicate n h) (replicate n l) (replicate n c) p
     = (if n < p then replicate n None
        else calculate_sma ((replicate n (true_range h l c))[0 := fsub h l]) p)"
  using assms
  by (simp add: calculate_atr_def Let_def np_roll1_replicate nans_def hd_replicate)

lemma true_range_flat:
  "true_range (Some 99) (Some 101) (Some 100) = Some 1"
  "true_range (Some 101) (Some 99) (Some 100) = Some 2"
  by (simp_all add: true_range_def)

lemma column_flat:
  "column 2 flat_window = replicate 200 (Some 101)"
  "column 3 flat_window = replicate 200 (Some 99)"
  "column 4 flat_window = replicate 200 (Some 100)"
  by (simp_all add: column_def flat_window_def comp_def map_replicate_const)

lemma well_formed_flat: "well_formed flat_window"
  by (simp add: well_formed_def flat_window_def list_all_iff hd_map)

lemma atr_flat_swapped:
  "last (calculate_atr (replicate 200 (Some 99)) (replicate 200 (Some 101)) (replicate 200 (Some 100)) 14)
     = Some 1"
proof -
  have "calculate_atr (replicate 200 (Some 99)) (replicate 200 (Some 101)) (replicate 200 (Some 100)) 14
      = calculate_sma ((replicate 200 (Some 1))[0 := Some (- 2)]) 14"
    by (simp add: calculate_atr_replicate true_range_flat)
  also have "last \<dots> = fmean (drop (200 - 14) ((replicate 200 (Some 1))[0 := Some (- 2)]))"
    using calculate_sma_last [of 14 "(replicate 200 (Some 1))[0 := Some (- 2)]"] by simp
  also have "\<dots> = Some 1"
    by (simp add: drop_update_cancel fmean_replicate)
  finally show ?thesis .
qed

lemma atr_flat_true:
  "last (calculate_atr (replicate 200 (Some 101)) (replicate 200 (Some 99)) (replicate 200 (Some 100)) 14)
     = Some 2"
proof -
  have "calculate_atr (replicate 200 (Some 101)) (replicate 200 (Some 99)) (replicate 200 (Some 100)) 14
      = calculate_sma ((replicate 200 (Some 2))[0 := Some 2]) 14"
    by (simp add: calculate_atr_replicate true_range_flat)
  also have "last \<dots> = fmean (drop (200 - 14) ((replicate 200 (Some 2))[0 := Some 2]))"
    using calculate_sma_last [of 14 "(replicate 200 (Some 2))[0 := Some 2]"] by simp
  also have "\<dots> = Some 2"
    by (simp add: drop_update_cancel fmean_replicate)
  finally show ?thesis .
qed

text \<open>
  C4 (the code against the claim): \<open>process_ohlcv\<close> takes its high series from field 3 and
  its low series from field 2.  On 200 bars with high 101, low 99 and close 100 the true
  range of every bar is 2 and \<open>calculate_atr\<close> on the high, low and close columns ends in 2;
  the snapshot's ATR is 1.
\<close>

theorem atr_from_swapped_columns:
  "200 \<le> length flat_window
   \<and> (\<exists>ind. process_ohlcv 200 flat_window = Inr (Some ind) \<and> atr_14 ind = Some 1)
   \<and> last (calculate_atr (column 2 flat_window) (column 3 flat_window) (column 4 flat_window) 14) = Some 2"
proof -
  have len: "200 \<le> length flat_window" by (simp add: flat_window_def)
  from process_ohlcv_snapshot [OF len well_formed_flat]
  obtain ind where "process_ohlcv 200 flat_window = Inr (Some ind)"
    and "atr_14 ind = last (calculate_atr (column 3 flat_window) (column 2 flat_window) (column 4 flat_window) 14)"
    by blast
  then have "\<exists>ind. process_ohlcv 200 flat_window = Inr (Some ind) \<and> atr_14 ind = Some 1"
    by (auto simp: column_flat atr_flat_swapped)
  with len show ?thesis by (simp add: column_flat atr_flat_true)
qed

subsection \<open>When the signal generator raises\<close>

text \<open>
  A trend is named only when EMA 12 and EMA 50 are in the order of the trend, so the first
  operand of the \<open>or\<close> in the trend confirmation is true and \<open>close\<close> is never read.
\<close>

lemma get_trend_uptrend:
  "(get_trend ind = ''UPTREND'') = (fgt (ema_12 ind) (ema_50 ind) \<and> fgt (ema_50 ind) (ema_200 ind))"
  by (simp add: get_trend_def)

lemma get_trend_downtrend:
  "(get_trend ind = ''DOWNTREND'') = (flt (ema_12 ind) (ema_50 ind) \<and> flt (ema_50 ind) (ema_200 ind))"
proof -
  have "\<not> (fgt (ema_12 ind) (ema_50 ind) \<and> flt (ema_12 ind) (ema_50 ind))"
    by (cases "ema_12 ind"; cases "ema_50 ind") auto
  then show ?thesis by (auto simp: get_trend_def)
qed

lemma check_trend_confirmation_uptrend:
  "fgt (ema_12 ind) (ema_50 ind) \<Longrightarrow>
     check_trend_confirmation self ind ''UPTREND'' = Inr (fgt (adx_14 ind) (Some (adx_threshold self - 5)))"
  by (simp add: check_trend_confirmation_def py_or_def)

lemma check_trend_confirmation_downtrend:
  "flt (ema_12 ind) (ema_50 ind) \<Longrightarrow>
     check_trend_confirmation self ind ''DOWNTREND'' = Inr (fgt (adx_14 ind) (Some (adx_threshold self - 5)))"
  by (simp add: check_trend_confirmation_def py_or_def)

lemma generate_buy_signal_raises:
  assumes "fgt (ema_12 ind) (ema_50 ind)"
  shows "(generate_buy_signal self ind price mult = Inl AttributeError)
       = (fgt (adx_14 ind) (Some (adx_threshold self - 5)) \<and> \<not> fgt (macd_histogram ind) (Some 0))"
    and "(\<exists>r. generate_buy_signal self ind price mult = Inr r)
       = (\<not> (fgt (adx_14 ind) (Some (adx_threshold self - 5)) \<and> \<not> fgt (macd_histogram ind) (Some 0)))"
  unfolding generate_buy_signal_def Let_def
  by (simp_all add: check_trend_confirmation_uptrend [OF assms] check_momentum_signal_buy)

lemma generate_sell_signal_raises:
  assumes "flt (ema_12 ind) (ema_50 ind)"
  shows "(generate_sell_signal self ind price mult = Inl AttributeError)
       = (fgt (adx_14 ind) (Some (adx_threshold self - 5)) \<and> \<not> flt (macd_histogram ind) (Some 0))"
    and "(\<exists>r. generate_sell_signal self ind price mult = Inr r)
       = (\<not> (fgt (adx_14 ind) (Some (adx_threshold self - 5)) \<and> \<not> flt (macd_histogram ind) (Some 0)))"
  unfolding generate_sell_signal_def Let_def
  by (simp_all add: check_trend_confirmation_downtrend [OF assms] check_momentum_signal_sell)


lemma generate_signal_uptrend:
  assumes snap: "process_ohlcv (min_candles self) w = Inr (Some ind)"
    and up: "get_trend ind = ''UPTREND''"
  shows "generate_signal self w price mult =
     (case generate_buy_signal self ind price mult of
        Inl e \<Rightarrow> Inl e
      | Inr None \<Rightarrow> Inr None
      | Inr (Some s) \<Rightarrow> if min_confidence self \<le> confidence s then Inr (Some s) else Inr None)"
  unfolding generate_signal_def Let_def by (simp add: snap up)

lemma generate_signal_downtrend:
  assumes snap: "process_ohlcv (min_candles self) w = Inr (Some ind)"
    and down: "get_trend ind = ''DOWNTREND''"
  shows "generate_signal self w price mult =
     (case generate_sell_signal self ind price mult of
        Inl e \<Rightarrow> Inl e
      | Inr None \<Rightarrow> Inr None
      | Inr (Some s) \<Rightarrow> if min_confidence self \<le> confidence s then Inr (Some s) else Inr None)"
  unfolding generate_signal_def Let_def by (simp add: snap down)

lemma generate_signal_sideways:
  assumes snap: "process_ohlcv (min_candles self) w = Inr (Some ind)"
    and "get_trend ind \<noteq> ''UPTREND''" and "get_trend ind \<noteq> ''DOWNTREND''"
  shows "generate_signal self w price mult = Inr None"
  unfolding generate_signal_def Let_def using assms by simp

text \<open>
  C1 (amended): on a window for which the snapshot is built, \<open>generate_signal\<close> raises
  \<open>AttributeError\<close> exactly when the trend is UPTREND, the ADX is above the threshold
  minus 5 and the MACD histogram is not above 0, or the trend is DOWNTREND, the ADX is above
  the threshold minus 5 and the histogram is not below 0; in every other case it returns a
  signal or \<open>None\<close>.
\<close>

theorem generate_signal_raises:
  assumes snap: "process_ohlcv (min_candles self) w = Inr (Some ind)"
  shows "((generate_signal self w price mult = Inl AttributeError)
          = ((get_trend ind = ''UPTREND''
               \<and> fgt (adx_14 ind) (Some (adx_threshold self - 5))
               \<and> \<not> fgt (macd_histogram ind) (Some 0))
           \<or> (get_trend ind = ''DOWNTREND''
               \<and> fgt (adx_14 ind) (Some (adx_threshold self - 5))
               \<and> \<not> flt (macd_histogram ind) (Some 0))))
       \<and> ((\<exists>r. generate_signal self w price mult = Inr r)
          = (\<not> ((get_trend ind = ''UPTREND''
               \<and> fgt (adx_14 ind) (Some (adx_threshold self - 5))
               \<and> \<not> fgt (macd_histogram ind) (Some 0))
           \<or> (get_trend ind = ''DOWNTREND''
               \<and> fgt (adx_14 ind) (Some (adx_threshold self - 5))
               \<and> \<not> flt (macd_histogram ind) (Some 0)))))"
proof -
  consider (up) "get_trend ind = ''UPTREND''" | (down) "get_trend ind = ''DOWNTREND''"
    | (side) "get_trend ind \<noteq> ''UPTREND''" "get_trend ind \<noteq> ''DOWNTREND''"
    by blast
  then show ?thesis
  proof cases
    case up
    then have aligned: "fgt (ema_12 ind) (ema_50 ind)"
      by (simp add: get_trend_uptrend)
    from up have nd: "get_trend ind \<noteq> ''DOWNTREND''" by simp
    note gs = generate_signal_uptrend [OF snap up, of price mult]
    note buy = generate_buy_signal_raises [OF aligned, of self price mult]
    show ?thesis
    proof (cases "generate_buy_signal self ind price mult")
      case (Inl e)
      with buy(2) have "fgt (adx_14 ind) (Some (adx_threshold self - 5)) \<and> \<not> fgt (macd_histogram ind) (Some 0)"
        by auto
      with buy(1) have "generate_buy_signal self ind price mult = Inl AttributeError" by simp
      with gs buy up nd show ?thesis by simp
    next
      case (Inr r)
      with buy(1) have "\<not> (fgt (adx_14 ind) (Some (adx_threshold self - 5)) \<and> \<not> fgt (macd_histogram ind) (Some 0))"
        by auto
      with gs Inr up nd show ?thesis by (auto split: option.splits)
    qed
  next
    case down
    then have aligned: "flt (ema_12 ind) (ema_50 ind)"
      by (simp add: get_trend_downtrend)
    from down have nu: "get_trend ind \<noteq> ''UPTREND''" by simp
    note gs = generate_signal_downtrend [OF snap down, of price mult]
    note sell = generate_sell_signal_raises [OF aligned, of self price mult]
    show ?thesis
    proof (cases "generate_sell_signal self ind price mult")
      case (Inl e)
      with sell(2) have "fgt (adx_14 ind) (Some (adx_threshold self - 5)) \<and> \<not> flt (macd_histogram ind) (Some 0)"
        by auto
      with sell(1) have "generate_sell_signal self ind price mult = Inl AttributeError" by simp
      with gs sell down nu show ?thesis by simp
    next
      case (Inr r)
      with sell(1) have "\<not> (fgt (adx_14 ind) (Some (adx_threshold self - 5)) \<and> \<not> flt (macd_histogram ind) (Some 0))"
        by auto
      with gs Inr down nu show ?thesis by (auto split: option.splits)
    qed
  next
    case side
    with generate_signal_sideways [OF snap side, of price mult] show ?thesis by simp
  qed
qed

subsection \<open>The last ADX value depends on the last bars only\<close>

lemma calculate_adx_dx_series:
  "calculate_adx high low close period =
     (if length high < period * 2 then nans high
      else calculate_sma (dx_series high low close period) period)"
  unfolding calculate_adx_def dx_series_def Let_def by simp

lemma rolling_drop:
  assumes "0 < p"
  shows "drop (k + (p - 1)) (rolling f xs p) = drop (p - 1) (rolling f (drop k xs) p)"
proof (rule nth_equalityI)
  show "length (drop (k + (p - 1)) (rolling f xs p)) = length (drop (p - 1) (rolling f (drop k xs) p))"
    by simp
next
  fix i assume "i < length (drop (k + (p - 1)) (rolling f xs p))"
  then have i: "k + (p - 1) + i < length xs" by simp
  then have i': "p - 1 + i < length (drop k xs)" by simp
  have l: "drop (k + (p - 1)) (rolling f xs p) ! i = f (take p (drop (k + i) xs))"
    using i assms by (simp add: rolling_nth)
  have "(p - 1 + i + 1 - p) = i" using assms by simp
  then have r: "drop (p - 1) (rolling f (drop k xs) p) ! i = f (take p (drop (k + i) xs))"
    using i' assms by (simp add: rolling_nth add.commute)
  from l r show "drop (k + (p - 1)) (rolling f xs p) ! i = drop (p - 1) (rolling f (drop k xs) p) ! i"
    by simp
qed

lemma calculate_sma_drop:
  assumes "0 < p" and "k + p \<le> length xs"
  shows "drop (k + (p - 1)) (calculate_sma xs p) = drop (p - 1) (calculate_sma (drop k xs) p)"
proof -
  from assms have "calculate_sma xs p = rolling fmean xs p"
    by (simp add: calculate_sma_def)
  moreover have "calculate_sma (drop k xs) p = rolling fmean (drop k xs) p"
  proof -
    from assms have "\<not> length (drop k xs) < p" by simp
    then show ?thesis by (simp only: calculate_sma_def if_False)
  qed
  ultimately show ?thesis
    by (simp only: rolling_drop [OF assms(1)])
qed

lemma drop_map2: "drop k (map2 f xs ys) = map2 f (drop k xs) (drop k ys)"
  by (simp add: drop_map drop_zip)

lemma dx_inputs_drop:
  "map2 fsub (tl (drop k high)) (butlast (drop k high)) = drop k (map2 fsub (tl high) (butlast high))"
  "map2 fsub (butlast (drop k low)) (tl (drop k low)) = drop k (map2 fsub (butlast low) (tl low))"
  "map (\<lambda>(h, l, pc). true_range h l pc)
       (zip (tl (drop k high)) (zip (tl (drop k low)) (butlast (drop k close))))
   = drop k (map (\<lambda>(h, l, pc). true_range h l pc) (zip (tl high) (zip (tl low) (butlast close))))"
  by (simp_all add: drop_map drop_zip tl_drop butlast_drop)

lemma dx_series_drop:
  assumes p: "0 < p" and len: "length low = length high" "length close = length high"
    and k: "k + 2 * p \<le> length high"
  shows "drop (k + (p - 1)) (dx_series high low close p)
       = drop (p - 1) (dx_series (drop k high) (drop k low) (drop k close) p)"
proof -
  define up where "up = map2 fsub (tl high) (butlast high)"
  define dn where "dn = map2 fsub (butlast low) (tl low)"
  define tr where "tr = map (\<lambda>(h, l, pc). true_range h l pc) (zip (tl high) (zip (tl low) (butlast close)))"
  define pos where "pos = map2 directional up dn"
  define neg where "neg = map2 directional dn up"
  have lens: "k + p \<le> length pos" "k + p \<le> length neg" "k + p \<le> length tr"
    using p len k by (simp_all add: pos_def neg_def tr_def up_def dn_def)
  note sma = calculate_sma_drop [OF p lens(1)] calculate_sma_drop [OF p lens(2)]
    calculate_sma_drop [OF p lens(3)]
  have full: "dx_series high low close p =
      map2 dx_value
        (map2 (\<lambda>d t. fmul (Some 100) (fdiv d t)) (calculate_sma pos p) (calculate_sma tr p))
        (map2 (\<lambda>d t. fmul (Some 100) (fdiv d t)) (calculate_sma neg p) (calculate_sma tr p))"
    unfolding dx_series_def Let_def pos_def neg_def tr_def up_def dn_def ..
  have part: "dx_series (drop k high) (drop k low) (drop k close) p =
      map2 dx_value
        (map2 (\<lambda>d t. fmul (Some 100) (fdiv d t)) (calculate_sma (drop k pos) p) (calculate_sma (drop k tr) p))
        (map2 (\<lambda>d t. fmul (Some 100) (fdiv d t)) (calculate_sma (drop k neg) p) (calculate_sma (drop k tr) p))"
    unfolding dx_series_def Let_def dx_inputs_drop
    unfolding pos_def neg_def tr_def up_def dn_def drop_map2 ..
  show ?thesis
    unfolding full part drop_map2 sma ..
qed


lemma length_dx_series:
  "length low = length high \<Longrightarrow> length close = length high \<Longrightarrow>
     length (dx_series high low close p) = length high - 1"
  unfolding dx_series_def Let_def by simp

lemma calculate_adx_last_local:
  assumes p: "0 < p" and len: "length low = length high" "length close = length high"
    and n: "2 * p \<le> length high"
  shows "last (calculate_adx high low close p)
       = last (calculate_adx (drop (length high - 2 * p) high) (drop (length high - 2 * p) low)
                 (drop (length high - 2 * p) close) p)"
proof -
  define k where "k = length high - 2 * p"
  define dx where "dx = dx_series high low close p"
  define dx' where "dx' = dx_series (drop k high) (drop k low) (drop k close) p"
  have ldx: "length dx = length high - 1"
    unfolding dx_def using len by (rule length_dx_series)
  have ldx': "length dx' = 2 * p - 1"
    unfolding dx'_def using len n by (simp add: length_dx_series k_def)
  have k: "k + 2 * p \<le> length high" using n by (simp add: k_def)
  have loc: "drop (k + (p - 1)) dx = drop (p - 1) dx'"
    unfolding dx_def dx'_def by (rule dx_series_drop [OF p len k])
  have "last (calculate_adx high low close p) = last (calculate_sma dx p)"
    using n by (simp add: calculate_adx_dx_series dx_def mult.commute)
  also have "\<dots> = fmean (drop (length dx - p) dx)"
    using p n ldx by (intro calculate_sma_last) simp_all
  also have "length dx - p = k + (p - 1)"
    using p n ldx by (simp add: k_def)
  also have "fmean (drop (k + (p - 1)) dx) = fmean (drop (length dx' - p) dx')"
    using p ldx' loc by simp
  also have "\<dots> = last (calculate_sma dx' p)"
    using p ldx' by (intro calculate_sma_last [symmetric]) simp_all
  also have "\<dots> = last (calculate_adx (drop k high) (drop k low) (drop k close) p)"
    using n by (simp add: calculate_adx_dx_series dx'_def k_def mult.commute)
  finally show ?thesis unfolding k_def .
qed

subsection \<open>EMA and MACD of a window that starts flat\<close>

lemma ema_loop_append:
  "ema_loop m prev (xs @ ys) = ema_loop m prev xs @ ema_loop m (last (prev # ema_loop m prev xs)) ys"
  by (induction xs arbitrary: prev) (simp_all add: Let_def)

lemma ema_loop_const: "ema_loop m (Some c) (replicate n (Some c)) = replicate n (Some c)"
  by (induction n) (simp_all add: Let_def algebra_simps)

lemma length_ema_loop [simp]: "length (ema_loop m prev xs) = length xs"
  by (induction xs arbitrary: prev) (simp_all add: Let_def)

lemma calculate_ema_flat_prefix:
  assumes "0 < p" and "p \<le> k"
  shows "calculate_ema (replicate k (Some c) @ rest) p
       = replicate k (Some c) @ ema_loop (2 / (real p + 1)) (Some c) rest"
proof -
  from assms obtain j where k: "k = p + j" by (auto simp: le_iff_add)
  have split: "replicate k (Some c) = replicate p (Some c) @ replicate j (Some c)"
    by (simp add: k replicate_add)
  have seed: "fmean (take p (replicate k (Some c) @ rest)) = Some c"
    using assms by (simp add: fmean_replicate min_absorb2)
  have dropped: "drop p (replicate k (Some c) @ rest) = replicate j (Some c) @ rest"
    by (simp add: k)
  have "calculate_ema (replicate k (Some c) @ rest) p
      = replicate p (Some c) @ ema_loop (2 / (real p + 1)) (Some c) (replicate j (Some c) @ rest)"
    unfolding calculate_ema_def Let_def seed dropped using assms by simp
  also have "\<dots> = replicate p (Some c) @ replicate j (Some c) @ ema_loop (2 / (real p + 1)) (Some c) rest"
  proof (cases j)
    case 0
    then show ?thesis by simp
  next
    case (Suc i)
    then have "last (Some c # replicate j (Some c)) = Some c" by simp
    then show ?thesis by (simp add: ema_loop_append ema_loop_const)
  qed
  finally show ?thesis by (simp add: split)
qed

lemma calculate_ema_whole:
  assumes "0 < p" and "length data = p"
  shows "last (calculate_ema data p) = fmean data"
  using assms by (simp add: calculate_ema_def Let_def)

lemma map2_fsub_flat_prefix:
  assumes "length xs = length ys"
  shows "map2 fsub (replicate k (Some c) @ xs) (replicate k (Some d) @ ys)
       = replicate k (Some (c - d)) @ map2 fsub xs ys"
  by (simp add: zip_replicate)

lemma calculate_macd_flat_prefix:
  assumes "26 \<le> k"
  shows "snd (snd (calculate_macd (replicate k (Some c) @ rest) 12 26 9))
     = replicate k (Some 0)
       @ (let macd_rest = map2 fsub (ema_loop (2 / 13) (Some c) rest) (ema_loop (2 / 27) (Some c) rest)
          in map2 fsub macd_rest (ema_loop (2 / 10) (Some 0) macd_rest))"
proof -
  define m where "m = map2 fsub (ema_loop (2 / 13) (Some c) rest) (ema_loop (2 / 27) (Some c) rest)"
  have e12: "calculate_ema (replicate k (Some c) @ rest) 12 = replicate k (Some c) @ ema_loop (2 / 13) (Some c) rest"
    using calculate_ema_flat_prefix [of 12 k c rest] assms by simp
  have e26: "calculate_ema (replicate k (Some c) @ rest) 26 = replicate k (Some c) @ ema_loop (2 / 27) (Some c) rest"
    using calculate_ema_flat_prefix [of 26 k c rest] assms by simp
  have macd: "map2 fsub (calculate_ema (replicate k (Some c) @ rest) 12)
                        (calculate_ema (replicate k (Some c) @ rest) 26)
            = replicate k (Some 0) @ m"
    unfolding e12 e26 m_def using map2_fsub_flat_prefix [of "ema_loop (2 / 13) (Some c) rest" "ema_loop (2 / 27) (Some c) rest" k c c]
    by simp
  have sig: "calculate_ema (replicate k (Some 0) @ m) 9 = replicate k (Some 0) @ ema_loop (2 / 10) (Some 0) m"
    using calculate_ema_flat_prefix [of 9 k 0 m] assms by simp
  have hist: "map2 fsub (replicate k (Some 0) @ m) (replicate k (Some 0) @ ema_loop (2 / 10) (Some 0) m)
            = replicate k (Some 0) @ map2 fsub m (ema_loop (2 / 10) (Some 0) m)"
    using map2_fsub_flat_prefix [of m "ema_loop (2 / 10) (Some 0) m" k 0 0] by simp
  have "snd (snd (calculate_macd (replicate k (Some c) @ rest) 12 26 9))
      = map2 fsub (replicate k (Some 0) @ m) (calculate_ema (replicate k (Some 0) @ m) 9)"
    unfolding calculate_macd_def Let_def macd by simp
  also have "\<dots> = replicate k (Some 0) @ map2 fsub m (ema_loop (2 / 10) (Some 0) m)"
    unfolding sig hist ..
  finally show ?thesis unfolding m_def Let_def .
qed

subsection \<open>An up-trend window on which no exception is raised\<close>

lemma generate_signal_weak_uptrend:
  assumes snap: "process_ohlcv (min_candles self) w = Inr (Some ind)"
    and up: "get_trend ind = ''UPTREND''"
    and weak: "\<not> fgt (adx_14 ind) (Some (adx_threshold self - 5))"
  shows "generate_signal self w price mult = Inr None"
proof -
  from up have aligned: "fgt (ema_12 ind) (ema_50 ind)"
    by (simp add: get_trend_uptrend)
  have "generate_buy_signal self ind price mult = Inr None"
    unfolding generate_buy_signal_def Let_def
    by (simp add: check_trend_confirmation_uptrend [OF aligned] weak)
  then show ?thesis
    by (simp add: generate_signal_uptrend [OF snap up])
qed

lemma length_column [simp]: "length (column k w) = length w"
  by (simp add: column_def)

lemma column_append: "column k (u @ v) = column k u @ column k v"
  by (simp add: column_def)

lemma spike_length: "length spike_window = 200"
  by (simp add: spike_window_def)

lemma well_formed_spike: "well_formed spike_window"
  by (auto simp: well_formed_def spike_window_def list_all_iff hd_map hd_append)

lemma spike_columns:
  "column 2 spike_window = replicate 199 (Some 101) @ [Some 111]"
  "column 3 spike_window = replicate 199 (Some 99) @ [Some 99]"
  "column 4 spike_window = replicate 199 (Some 100) @ [Some 110]"
  by (simp_all add: column_def spike_window_def comp_def map_replicate_const)

lemma spike_emas:
  "last (calculate_ema (column 4 spike_window) 12) = Some (1320 / 13)"
  "last (calculate_ema (column 4 spike_window) 50) = Some (5120 / 51)"
  "last (calculate_ema (column 4 spike_window) 200) = Some (2001 / 20)"
proof -
  show "last (calculate_ema (column 4 spike_window) 12) = Some (1320 / 13)"
    unfolding spike_columns using calculate_ema_flat_prefix [of 12 199 100 "[Some 110]"]
    by (simp add: Let_def)
  show "last (calculate_ema (column 4 spike_window) 50) = Some (5120 / 51)"
    unfolding spike_columns using calculate_ema_flat_prefix [of 50 199 100 "[Some 110]"]
    by (simp add: Let_def)
  have "fmean (replicate 199 (Some 100) @ [Some 110]) = Some (2001 / 20)"
    by (simp add: fmean_def fsum_append foldr_fadd_replicate fsum_def del: foldr_replicate)
  then show "last (calculate_ema (column 4 spike_window) 200) = Some (2001 / 20)"
    unfolding spike_columns using calculate_ema_whole [of 200 "replicate 199 (Some 100) @ [Some 110]"]
    by simp
qed

lemma spike_adx:
  "last (calculate_adx (column 3 spike_window) (column 2 spike_window) (column 4 spike_window) 14) = Some 0"
proof -
  have "last (calculate_adx (column 3 spike_window) (column 2 spike_window) (column 4 spike_window) 14)
      = last (calculate_adx (drop 172 (column 3 spike_window)) (drop 172 (column 2 spike_window))
                (drop 172 (column 4 spike_window)) 14)"
    using calculate_adx_last_local [of 14 "column 2 spike_window" "column 3 spike_window" "column 4 spike_window"]
    by (simp add: spike_length)
  also have "\<dots> = last (calculate_adx (replicate 27 (Some 99) @ [Some 99]) (replicate 27 (Some 101) @ [Some 111])
                          (replicate 27 (Some 100) @ [Some 110]) 14)"
    by (simp add: spike_columns)
  also have "\<dots> = Some 0"
    by code_simp
  finally show ?thesis .
qed

text \<open>
  C1, as stated, fails: the window \<open>spike_window\<close> has 200 bars and its EMAs are in the
  order of an up-trend (101.54 above 100.39 above 100.05), but its ADX is 0, the trend
  confirmation answers false without reading \<open>close\<close>, and \<open>generate_signal\<close> returns
  \<open>None\<close>.
\<close>

theorem uptrend_window_returns_none:
  "200 \<le> length spike_window
   \<and> (\<exists>ind. process_ohlcv 200 spike_window = Inr (Some ind) \<and> get_trend ind = ''UPTREND'')
   \<and> generate_signal SignalGenerator_init spike_window 110 2 = Inr None"
proof -
  have len: "200 \<le> length spike_window" by (simp add: spike_length)
  from process_ohlcv_snapshot [OF len well_formed_spike]
  obtain ind where snap: "process_ohlcv 200 spike_window = Inr (Some ind)"
    and emas: "ema_12 ind = Some (1320 / 13)" "ema_50 ind = Some (5120 / 51)" "ema_200 ind = Some (2001 / 20)"
    and adx: "adx_14 ind = Some 0"
    unfolding spike_emas spike_adx by blast
  have up: "get_trend ind = ''UPTREND''"
    by (simp add: get_trend_uptrend emas)
  have snap': "process_ohlcv (min_candles SignalGenerator_init) spike_window = Inr (Some ind)"
    using snap by (simp add: SignalGenerator_init_def)
  have weak: "\<not> fgt (adx_14 ind) (Some (adx_threshold SignalGenerator_init - 5))"
    by (simp add: adx SignalGenerator_init_def)
  from generate_signal_weak_uptrend [OF snap' up weak] snap up len show ?thesis by blast
qed

subsection \<open>An up-trend window on which the exception is raised\<close>

lemma reversal_length: "length reversal_window = 200"
  by (simp add: reversal_window_def)

lemma well_formed_reversal: "well_formed reversal_window"
  by (auto simp: well_formed_def reversal_window_def list_all_iff hd_map hd_append)

lemma reversal_close:
  "column 4 reversal_window = replicate 198 (Some 100) @ [Some 110, Some 93]"
  by (simp add: column_def reversal_window_def comp_def map_replicate_const replicate_add [symmetric])

lemma reversal_last_bars:
  "drop 172 (column 3 reversal_window) = map (\<lambda>j. Some (61 + real j)) [0..<26] @ [Some 87, Some 88]"
  "drop 172 (column 2 reversal_window) = replicate 26 (Some 150) @ [Some 150, Some 150]"
  "drop 172 (column 4 reversal_window) = replicate 26 (Some 100) @ [Some 110, Some 93]"
  by (simp_all add: column_def reversal_window_def comp_def map_replicate_const)

lemma reversal_emas:
  "last (calculate_ema (column 4 reversal_window) 12) = Some (16938 / 169)"
  "last (calculate_ema (column 4 reversal_window) 50) = Some (260366 / 2601)"
  "last (calculate_ema (column 4 reversal_window) 200) = Some (20003 / 200)"
proof -
  show "last (calculate_ema (column 4 reversal_window) 12) = Some (16938 / 169)"
    unfolding reversal_close using calculate_ema_flat_prefix [of 12 198 100 "[Some 110, Some 93]"]
    by (simp add: Let_def)
  show "last (calculate_ema (column 4 reversal_window) 50) = Some (260366 / 2601)"
    unfolding reversal_close using calculate_ema_flat_prefix [of 50 198 100 "[Some 110, Some 93]"]
    by (simp add: Let_def)
  have "fmean (replicate 198 (Some 100) @ [Some 110, Some 93]) = Some (20003 / 200)"
    by (simp add: fmean_def fsum_append foldr_fadd_replicate fsum_def del: foldr_replicate)
  then show "last (calculate_ema (column 4 reversal_window) 200) = Some (20003 / 200)"
    unfolding reversal_close
    using calculate_ema_whole [of 200 "replicate 198 (Some 100) @ [Some 110, Some 93]"]
    by simp
qed

lemma reversal_histogram:
  "last (snd (snd (calculate_macd (column 4 reversal_window) 12 26 9))) = Some (- (50288 / 616005))"
  unfolding reversal_close
  using calculate_macd_flat_prefix [of 198 100 "[Some 110, Some 93]"]
  by (simp add: Let_def)

lemma reversal_adx:
  "fgt (last (calculate_adx (column 3 reversal_window) (column 2 reversal_window)
                (column 4 reversal_window) 14)) (Some 20)"
proof -
  have "last (calculate_adx (column 3 reversal_window) (column 2 reversal_window) (column 4 reversal_window) 14)
      = last (calculate_adx (drop 172 (column 3 reversal_window)) (drop 172 (column 2 reversal_window))
                (drop 172 (column 4 reversal_window)) 14)"
    using calculate_adx_last_local [of 14 "column 2 reversal_window" "column 3 reversal_window" "column 4 reversal_window"]
    by (simp add: reversal_length)
  moreover have "fgt (last (calculate_adx (map (\<lambda>j. Some (61 + real j)) [0..<26] @ [Some 87, Some 88])
                     (replicate 26 (Some 150) @ [Some 150, Some 150])
                     (replicate 26 (Some 100) @ [Some 110, Some 93]) 14)) (Some 20)"
    by code_simp
  ultimately show ?thesis by (simp only: reversal_last_bars)
qed


text \<open>
  The window \<open>reversal_window\<close>: an up-trend (EMAs 100.22 above 100.10 above 100.02)
  with an ADX near 100 and a histogram of -0.08.  The momentum check reads
  \<open>macd_histogram_prev\<close> and \<open>generate_signal\<close> raises.
\<close>

theorem generate_signal_raises_witness:
  "(\<exists>ind. process_ohlcv (min_candles SignalGenerator_init) reversal_window = Inr (Some ind)
       \<and> get_trend ind = ''UPTREND''
       \<and> fgt (adx_14 ind) (Some (adx_threshold SignalGenerator_init - 5))
       \<and> \<not> fgt (macd_histogram ind) (Some 0))
   \<and> generate_signal SignalGenerator_init reversal_window 93 2 = Inl AttributeError"
proof -
  have len: "200 \<le> length reversal_window" by (simp add: reversal_length)
  from process_ohlcv_snapshot [OF len well_formed_reversal]
  obtain ind where snap: "process_ohlcv 200 reversal_window = Inr (Some ind)"
    and emas: "ema_12 ind = Some (16938 / 169)" "ema_50 ind = Some (260366 / 2601)"
      "ema_200 ind = Some (20003 / 200)"
    and hist: "macd_histogram ind = Some (- (50288 / 616005))"
    and adx: "adx_14 ind = last (calculate_adx (column 3 reversal_window) (column 2 reversal_window)
                (column 4 reversal_window) 14)"
    unfolding reversal_emas reversal_histogram by blast
  have up: "get_trend ind = ''UPTREND''"
    by (simp add: get_trend_uptrend emas)
  have snap': "process_ohlcv (min_candles SignalGenerator_init) reversal_window = Inr (Some ind)"
    using snap by (simp add: SignalGenerator_init_def)
  have strong: "fgt (adx_14 ind) (Some (adx_threshold SignalGenerator_init - 5))"
    using reversal_adx by (simp add: adx SignalGenerator_init_def)
  have falling: "\<not> fgt (macd_histogram ind) (Some 0)"
    by (simp add: hist)
  from generate_signal_raises [OF snap', of 93 2] up strong falling
  have "generate_signal SignalGenerator_init reversal_window 93 2 = Inl AttributeError"
    by blast
  with snap' up strong falling show ?thesis by blast
qed

section \<open>Properties of the risk manager\<close>

subsection \<open>Facts about the dictionary of positions\<close>

lemma map_of_delete_self: "map_of (AList.delete k al) k = None"
  by (simp add: AList.delete_eq map_of_eq_None_iff image_iff)

lemma map_of_update_self: "map_of (AList.update k v al) k = Some v"
  by (simp add: AList.update_conv')

subsection \<open>The example state is a state of the manager\<close>

lemma manager_after_tp1_reached:
  "\<exists>m. open_position (RiskManager_init (RiskConfig_init 10000)) ''pos_001'' ''BTC/USD'' ''buy''
          45000 (1 / 10) 44000 46500 48000 50000 0 = Inr (m, True)
     \<and> close_position_partial m ''pos_001'' 1 46500 = Inr (manager_after_tp1, 3 / 100)"
  by (simp add: open_position_def can_open_position_def RiskManager_init_def RiskConfig_init_def
        get_current_capital_def close_position_partial_def Let_def get_open_volume_def
        set_position_def manager_after_tp1_def pos_001_def)

subsection \<open>Stop-loss close\<close>



subsection \<open>Unknown position ids\<close>

text \<open>
  C9: on a position id that is not among the live positions, \<open>update_position_price\<close>,
  \<open>close_position_partial\<close> and \<open>close_position_stop_loss\<close> raise nothing, return
  \<open>None\<close>, 0 and 0, and leave the whole manager (positions, closed history,
  \<open>total_realized_pnl\<close>, \<open>consecutive_losses\<close>) as it was.
\<close>

theorem unknown_position_noop:
  "map_of (positions self) pid = None \<Longrightarrow>
     update_position_price self pid price = Inr (self, ())
   \<and> close_position_partial self pid tp_level close_price = Inr (self, 0)
   \<and> close_position_stop_loss self pid close_price = Inr (self, 0)"
  by (simp add: update_position_price_def close_position_partial_def close_position_stop_loss_def)

theorem unknown_position_noop_witness:
  "map_of (positions manager_after_tp1) ''ghost'' = None
   \<and> update_position_price manager_after_tp1 ''ghost'' 50 = Inr (manager_after_tp1, ())
   \<and> close_position_partial manager_after_tp1 ''ghost'' 1 50 = Inr (manager_after_tp1, 0)
   \<and> close_position_stop_loss manager_after_tp1 ''ghost'' 50 = Inr (manager_after_tp1, 0)"
proof -
  have unknown: "map_of (positions manager_after_tp1) ''ghost'' = None"
    by (simp add: manager_after_tp1_def)
  from unknown_position_noop [OF unknown] unknown show ?thesis by simp
qed

section \<open>Properties of the sizing in binary64\<close>

subsection \<open>Comparisons and values\<close>

lemma scale_val:
  assumes "e \<le> snd a"
  shows "real_of_int (fst a * 2 ^ nat (snd a - e)) * 2 powr real_of_int e = f64_val a"
proof -
  have "(2::real) ^ nat (snd a - e) = 2 powr real_of_int (snd a - e)"
    using assms by (simp add: powr_realpow [symmetric])
  then have "real_of_int (fst a * 2 ^ nat (snd a - e)) * 2 powr real_of_int e
      = real_of_int (fst a) * (2 powr real_of_int (snd a - e) * 2 powr real_of_int e)"
    by simp
  also have "2 powr real_of_int (snd a - e) * 2 powr real_of_int e = 2 powr real_of_int (snd a)"
    by (simp add: powr_add [symmetric])
  finally show ?thesis by (simp add: f64_val_def)
qed

lemma f64_le_val: "f64_le a b \<longleftrightarrow> f64_val a \<le> f64_val b"
proof -
  define e where "e = min (snd a) (snd b)"
  have ea: "e \<le> snd a" and eb: "e \<le> snd b" by (simp_all add: e_def)
  have pos: "0 < 2 powr real_of_int e" by simp
  have "f64_le a b \<longleftrightarrow> fst a * 2 ^ nat (snd a - e) \<le> fst b * 2 ^ nat (snd b - e)"
    by (simp add: f64_le_def Let_def e_def)
  also have "\<dots> \<longleftrightarrow> real_of_int (fst a * 2 ^ nat (snd a - e))
                    \<le> real_of_int (fst b * 2 ^ nat (snd b - e))"
    by (simp only: of_int_le_iff)
  also have "\<dots> \<longleftrightarrow> real_of_int (fst a * 2 ^ nat (snd a - e)) * 2 powr real_of_int e
                    \<le> real_of_int (fst b * 2 ^ nat (snd b - e)) * 2 powr real_of_int e"
    using pos by (simp only: mult_le_cancel_right_pos)
  finally show ?thesis by (simp only: scale_val [OF ea] scale_val [OF eb])
qed

lemma f64_lt_val: "f64_lt a b \<longleftrightarrow> f64_val a < f64_val b"
proof -
  define e where "e = min (snd a) (snd b)"
  have ea: "e \<le> snd a" and eb: "e \<le> snd b" by (simp_all add: e_def)
  have pos: "0 < 2 powr real_of_int e" by simp
  have "f64_lt a b \<longleftrightarrow> fst a * 2 ^ nat (snd a - e) < fst b * 2 ^ nat (snd b - e)"
    by (simp add: f64_lt_def Let_def e_def)
  also have "\<dots> \<longleftrightarrow> real_of_int (fst a * 2 ^ nat (snd a - e))
                    < real_of_int (fst b * 2 ^ nat (snd b - e))"
    by (simp only: of_int_less_iff)
  also have "\<dots> \<longleftrightarrow> real_of_int (fst a * 2 ^ nat (snd a - e)) * 2 powr real_of_int e
                    < real_of_int (fst b * 2 ^ nat (snd b - e)) * 2 powr real_of_int e"
    using pos by (simp only: mult_less_cancel_right_pos)
  finally show ?thesis by (simp only: scale_val [OF ea] scale_val [OF eb])
qed

lemma f64_eq_val: "f64_eq a b \<longleftrightarrow> f64_val a = f64_val b"
proof -
  define e where "e = min (snd a) (snd b)"
  have ea: "e \<le> snd a" and eb: "e \<le> snd b" by (simp_all add: e_def)
  have pos: "2 powr real_of_int e \<noteq> 0" by simp
  have "f64_eq a b \<longleftrightarrow> fst a * 2 ^ nat (snd a - e) = fst b * 2 ^ nat (snd b - e)"
    by (simp add: f64_eq_def Let_def e_def)
  also have "\<dots> \<longleftrightarrow> real_of_int (fst a * 2 ^ nat (snd a - e))
                    = real_of_int (fst b * 2 ^ nat (snd b - e))"
    by (simp only: of_int_eq_iff)
  also have "\<dots> \<longleftrightarrow> real_of_int (fst a * 2 ^ nat (snd a - e)) * 2 powr real_of_int e
                    = real_of_int (fst b * 2 ^ nat (snd b - e)) * 2 powr real_of_int e"
    using pos by (simp only: mult_cancel_right) simp
  finally show ?thesis by (simp only: scale_val [OF ea] scale_val [OF eb])
qed

lemma f64_eq_zero_iff: "f64_eq a f64_zero \<longleftrightarrow> fst a = 0"
  by (simp add: f64_eq_val f64_zero_def f64_val_def)

lemma f64_lt_zero_iff: "f64_lt f64_zero a \<longleftrightarrow> 0 < fst a"
  by (simp add: f64_lt_val f64_zero_def f64_val_def zero_less_mult_iff)

lemma f64_min_le1: "f64_le (f64_min a b) a"
  by (simp add: f64_min_def f64_le_val f64_lt_val)

lemma f64_min_le2: "f64_le (f64_min a b) b"
  by (simp add: f64_min_def f64_le_val f64_lt_val)

lemma f64_le_trans: "f64_le a b \<Longrightarrow> f64_le b c \<Longrightarrow> f64_le a c"
  by (simp add: f64_le_val)

subsection \<open>Rounding keeps the sign\<close>

lemma rne_bounds: "m div 2 ^ k \<le> rne m k \<and> rne m k \<le> m div 2 ^ k + 1"
  by (cases k) (simp_all add: rne_def Let_def)

lemma big_mantissa:
  assumes "0 < m" and "0 < nat (bitlen m - 53)"
  shows "2 ^ 52 \<le> m div 2 ^ nat (bitlen m - 53)"
proof -
  define k where "k = nat (bitlen m - 53)"
  have bl: "bitlen m = 53 + int k" using assms by (simp add: k_def)
  from bitlen_bounds [OF assms(1)] have "2 ^ nat (bitlen m - 1) \<le> m" by simp
  moreover have "nat (bitlen m - 1) = 52 + k" using bl by simp
  ultimately have "(2::int) ^ 52 * 2 ^ k \<le> m" by (simp add: power_add)
  then have "(2::int) ^ 52 * 2 ^ k div 2 ^ k \<le> m div 2 ^ k"
    by (rule zdiv_mono1) simp
  then show ?thesis by (simp add: k_def)
qed

lemma big_mantissa_neg:
  assumes "m < 0" and "0 < nat (bitlen (- m) - 53)"
  shows "m div 2 ^ nat (bitlen (- m) - 53) \<le> - (2 ^ 52)"
proof -
  define k where "k = nat (bitlen (- m) - 53)"
  have bl: "bitlen (- m) = 53 + int k" using assms by (simp add: k_def)
  from assms(1) have pm: "0 < - m" by simp
  from bitlen_bounds [OF pm] have "2 ^ nat (bitlen (- m) - 1) \<le> - m" by simp
  moreover have "nat (bitlen (- m) - 1) = 52 + k" using bl by simp
  ultimately have "m \<le> (- (2 ^ 52)) * 2 ^ k" by (simp add: power_add)
  then have "m div 2 ^ k \<le> (- (2 ^ 52)) * 2 ^ k div 2 ^ k"
    by (rule zdiv_mono1) simp
  also have "((- (2 ^ 52)) * 2 ^ k div 2 ^ k :: int) = - (2 ^ 52)"
    by (rule nonzero_mult_div_cancel_right) simp
  finally show ?thesis by (simp add: k_def)
qed

lemma round53_pos: "0 < m \<Longrightarrow> 0 < fst (round53 m e)"
proof -
  assume m: "0 < m"
  show ?thesis
  proof (cases "nat (bitlen m - 53) = 0")
    case True
    with m show ?thesis by (simp add: round53_def Let_def rne_def)
  next
    case False
    then have k: "0 < nat (bitlen m - 53)" by simp
    from big_mantissa [OF m k] rne_bounds [of m "nat (bitlen m - 53)"]
    have "2 ^ 52 \<le> rne m (nat (bitlen m - 53))" by linarith
    with m show ?thesis by (simp add: round53_def Let_def)
  qed
qed

lemma round53_neg: "m < 0 \<Longrightarrow> fst (round53 m e) < 0"
proof -
  assume m: "m < 0"
  then have abs: "\<bar>m\<bar> = - m" by simp
  show ?thesis
  proof (cases "nat (bitlen (- m) - 53) = 0")
    case True
    with m abs show ?thesis by (simp add: round53_def Let_def rne_def)
  next
    case False
    then have k: "0 < nat (bitlen (- m) - 53)" by simp
    from big_mantissa_neg [OF m k] rne_bounds [of m "nat (bitlen (- m) - 53)"]
    have "rne m (nat (bitlen (- m) - 53)) \<le> - (2 ^ 52) + 1" by linarith
    with m abs show ?thesis by (simp add: round53_def Let_def)
  qed
qed

lemma round53_zero_iff: "fst (round53 m e) = 0 \<longleftrightarrow> m = 0"
proof (cases "m = 0")
  case True
  then show ?thesis by (simp add: round53_def rne_def)
next
  case False
  with round53_pos [of m e] round53_neg [of m e] show ?thesis
    by (cases "0 < m") auto
qed

text \<open>The difference of two numbers is zero exactly when they are equal.\<close>

lemma f64_sub_zero_iff: "f64_eq (f64_abs (f64_sub a b)) f64_zero \<longleftrightarrow> f64_eq a b"
proof -
  have "f64_eq (f64_abs (f64_sub a b)) f64_zero \<longleftrightarrow> fst (f64_sub a b) = 0"
    by (simp add: f64_eq_zero_iff f64_abs_def)
  also have "\<dots> \<longleftrightarrow> f64_eq a b"
    by (simp add: f64_sub_def Let_def round53_zero_iff f64_eq_def)
  finally show ?thesis .
qed

subsection \<open>Rounding error of the division\<close>

text \<open>
  A quotient of a numerator that is not negative by a positive divisor is rounded up by at
  most one part in 2^53.  The quotient is rounded from its integer part with a sticky
  bit, which is at least 2^55: the rounding drops two bits or more, and the sticky bit is
  never taken for a tie.
\<close>

lemma rne_step:
  assumes k: "0 < k"
  shows "rne t k = (if t mod 2 ^ k < 2 ^ (k - 1) \<or> (t mod 2 ^ k = 2 ^ (k - 1) \<and> even (t div 2 ^ k))
                    then t div 2 ^ k else t div 2 ^ k + 1)"
  using k by (simp add: rne_def Let_def)

lemma odd_mod_pow2:
  assumes "odd (t::int)" and "0 < k"
  shows "odd (t mod 2 ^ k)"
proof -
  from \<open>0 < k\<close> have "even ((2::int) ^ k)" by simp
  then have "even (t div 2 ^ k * 2 ^ k)" by simp
  moreover have "t = t div 2 ^ k * 2 ^ k + t mod 2 ^ k" by (rule div_mult_mod_eq [symmetric])
  ultimately show ?thesis using \<open>odd t\<close> by (metis even_add)
qed

lemma floor_part_le:
  fixes t :: int and x :: real
  assumes k: "0 < k"
    and x: "real_of_int t \<le> x \<or> (odd t \<and> real_of_int t - 1 < x)"
  shows "real_of_int (t div 2 ^ k * 2 ^ k) \<le> x"
proof -
  have dm: "t = t div 2 ^ k * 2 ^ k + t mod 2 ^ k" by (rule div_mult_mod_eq [symmetric])
  have r0: "0 \<le> t mod 2 ^ k" by simp
  from x show ?thesis
  proof
    assume "real_of_int t \<le> x"
    moreover have "t div 2 ^ k * 2 ^ k \<le> t" using dm r0 by linarith
    ultimately show ?thesis by linarith
  next
    assume a: "odd t \<and> real_of_int t - 1 < x"
    then have "odd (t mod 2 ^ k)" using odd_mod_pow2 k by blast
    then have "t mod 2 ^ k \<noteq> 0" by auto
    with r0 have "1 \<le> t mod 2 ^ k" by linarith
    then have "t div 2 ^ k * 2 ^ k \<le> t - 1" using dm by linarith
    then have "real_of_int (t div 2 ^ k * 2 ^ k) \<le> real_of_int t - 1" by linarith
    with a show ?thesis by linarith
  qed
qed

lemma round_up_le:
  fixes t :: int and x :: real
  assumes k: "2 \<le> k"
    and x: "real_of_int t \<le> x \<or> (odd t \<and> real_of_int t - 1 < x)"
    and up: "rne t k = t div 2 ^ k + 1"
  shows "real_of_int (t div 2 ^ k * 2 ^ k + 2 ^ (k - 1)) \<le> x"
proof -
  from k have k0: "0 < k" by simp
  have dm: "t = t div 2 ^ k * 2 ^ k + t mod 2 ^ k" by (rule div_mult_mod_eq [symmetric])
  from up rne_step [OF k0, of t]
  have r: "\<not> (t mod 2 ^ k < 2 ^ (k - 1) \<or> (t mod 2 ^ k = 2 ^ (k - 1) \<and> even (t div 2 ^ k)))"
    by (auto split: if_splits)
  then have rge: "2 ^ (k - 1) \<le> t mod 2 ^ k" by auto
  from x show ?thesis
  proof
    assume "real_of_int t \<le> x"
    moreover have "t div 2 ^ k * 2 ^ k + 2 ^ (k - 1) \<le> t" using dm rge by linarith
    ultimately show ?thesis by linarith
  next
    assume a: "odd t \<and> real_of_int t - 1 < x"
    then have "odd (t mod 2 ^ k)" using odd_mod_pow2 k0 by blast
    moreover from k have "even ((2::int) ^ (k - 1))" by simp
    ultimately have "t mod 2 ^ k \<noteq> 2 ^ (k - 1)" by metis
    with rge have "2 ^ (k - 1) + 1 \<le> t mod 2 ^ k" by linarith
    then have "t div 2 ^ k * 2 ^ k + 2 ^ (k - 1) \<le> t - 1" using dm by linarith
    then have "real_of_int (t div 2 ^ k * 2 ^ k + 2 ^ (k - 1)) \<le> real_of_int t - 1" by linarith
    with a show ?thesis by linarith
  qed
qed

lemma bitlen_big:
  assumes "2 ^ 55 \<le> (t::int)"
  shows "56 \<le> bitlen t"
proof -
  from assms have pos: "0 < t" by (smt (verit) zero_less_power)
  from bitlen_bounds [OF pos] have "t < 2 ^ nat (bitlen t)" by simp
  with assms have lt: "(2::int) ^ 55 < 2 ^ nat (bitlen t)" by linarith
  have "55 < nat (bitlen t)"
    by (rule power_less_imp_less_exp [of "2::int"]) (simp, fact lt)
  then show ?thesis by linarith
qed

lemma rne_scaled_upper:
  fixes t :: int and x :: real
  assumes big: "2 ^ 55 \<le> t"
    and x: "real_of_int t \<le> x \<or> (odd t \<and> real_of_int t - 1 < x)"
  shows "real_of_int (rne t (nat (bitlen t - 53))) * 2 ^ nat (bitlen t - 53) \<le> x * (1 + 1 / 2 ^ 53)"
proof -
  define k where "k = nat (bitlen t - 53)"
  from big have pos: "0 < t" by (smt (verit) zero_less_power)
  from bitlen_big [OF big] have k2: "2 \<le> k" by (simp add: k_def)
  then have k0: "0 < k" by simp
  define q where "q = t div 2 ^ k"
  have q52: "2 ^ 52 \<le> q"
    using big_mantissa [OF pos] k0 by (simp add: k_def q_def)
  have base: "real_of_int (q * 2 ^ k) \<le> x"
    unfolding q_def by (rule floor_part_le [OF k0 x])
  have half: "(2::real) ^ (k - 1) * 2 = 2 ^ k"
    using k0 by (cases k) simp_all
  have base': "real_of_int q * 2 ^ k \<le> x" using base by simp
  have "real_of_int ((2::int) ^ 52) \<le> real_of_int q" using q52 by (simp only: of_int_le_iff)
  then have "(2::real) ^ 52 \<le> real_of_int q" by simp
  then have "(2::real) ^ 52 * 2 ^ k \<le> real_of_int q * 2 ^ k"
    by (rule mult_right_mono) simp
  then have "(2::real) ^ 52 * 2 ^ k \<le> x" using base' by (rule order_trans)
  then have "(2::real) ^ 52 * (2 ^ (k - 1) * 2) \<le> x" by (simp only: half)
  then have "(2::real) ^ (k - 1) * 2 ^ 53 \<le> x" by simp
  then have eps: "(2::real) ^ (k - 1) \<le> x / 2 ^ 53" by (simp add: le_divide_eq)
  from base have x0: "0 \<le> x"
    using q52 by (smt (verit) of_int_0_le_iff zero_le_mult_iff zero_le_power)
  from rne_step [OF k0, of t]
  have "rne t k = q \<or> rne t k = q + 1" by (auto simp: q_def)
  then have "real_of_int (rne t k) * 2 ^ k \<le> x * (1 + 1 / 2 ^ 53)"
  proof
    assume "rne t k = q"
    then have "real_of_int (rne t k) * 2 ^ k \<le> x" using base by simp
    also have "x \<le> x * (1 + 1 / 2 ^ 53)" using x0 by (simp add: algebra_simps)
    finally show ?thesis .
  next
    assume up: "rne t k = q + 1"
    then have "rne t k = t div 2 ^ k + 1" by (simp add: q_def)
    from round_up_le [OF k2 x this]
    have mid: "real_of_int (q * 2 ^ k) + 2 ^ (k - 1) \<le> x" by (simp add: q_def)
    have "real_of_int (rne t k) * 2 ^ k = real_of_int (q * 2 ^ k) + 2 ^ k"
      using up by (simp add: algebra_simps)
    also have "\<dots> = real_of_int (q * 2 ^ k) + 2 ^ (k - 1) + 2 ^ (k - 1)"
      using half by simp
    also have "\<dots> \<le> x + x / 2 ^ 53" using mid eps by linarith
    also have "\<dots> = x * (1 + 1 / 2 ^ 53)" by (simp add: algebra_simps)
    finally show ?thesis .
  qed
  then show ?thesis by (simp add: k_def)
qed

lemma round53_upper:
  fixes t :: int and x :: real
  assumes big: "2 ^ 55 \<le> t"
    and x: "real_of_int t \<le> x \<or> (odd t \<and> real_of_int t - 1 < x)"
  shows "f64_val (round53 t E) \<le> x * 2 powr real_of_int E * (1 + 1 / 2 ^ 53)"
proof -
  define k where "k = nat (bitlen t - 53)"
  from big have pos: "0 < t" by (smt (verit) zero_less_power)
  then have abs: "\<bar>t\<bar> = t" by simp
  have val: "f64_val (round53 t E) = real_of_int (rne t k) * 2 powr real_of_int (E + int k)"
    by (simp add: round53_def Let_def f64_val_def abs k_def)
  have "2 powr real_of_int (E + int k) = 2 powr real_of_int E * 2 ^ k"
    by (simp add: powr_add powr_realpow)
  with val have "f64_val (round53 t E) = (real_of_int (rne t k) * 2 ^ k) * 2 powr real_of_int E"
    by simp
  also have "\<dots> \<le> (x * (1 + 1 / 2 ^ 53)) * 2 powr real_of_int E"
    using rne_scaled_upper [OF big x] by (simp add: k_def mult_right_mono)
  finally show ?thesis by (simp add: algebra_simps)
qed

lemma f64_div_zero: "fst a = 0 \<Longrightarrow> f64_val (f64_div a b) = 0"
  by (simp add: f64_div_def Let_def round53_def rne_def f64_val_def)

lemma quotient_big:
  assumes p: "0 < p" and q: "0 < q"
  shows "2 ^ 54 \<le> p * 2 ^ nat (bitlen q - bitlen p + 55) div q"
proof -
  define s where "s = nat (bitlen q - bitlen p + 55)"
  from bitlen_bounds [OF p] have pl: "2 ^ nat (bitlen p - 1) \<le> p" by simp
  from bitlen_bounds [OF q] have qu: "q < 2 ^ nat (bitlen q)" by simp
  have bp: "1 \<le> bitlen p"
  proof (rule ccontr)
    assume "\<not> 1 \<le> bitlen p"
    then have "nat (bitlen p) = 0" by simp
    with bitlen_bounds [OF p] show False by auto
  qed
  have bq: "1 \<le> bitlen q"
  proof (rule ccontr)
    assume "\<not> 1 \<le> bitlen q"
    then have "nat (bitlen q) = 0" by simp
    with qu q show False by auto
  qed
  have "bitlen q + 54 \<le> (bitlen p - 1) + int s" by (simp add: s_def)
  then have ex: "nat (bitlen q) + 54 \<le> nat (bitlen p - 1) + s" using bp bq by linarith
  have "(2::int) ^ 54 * q \<le> 2 ^ 54 * 2 ^ nat (bitlen q)"
    using qu by simp
  also have "\<dots> = 2 ^ (nat (bitlen q) + 54)" by (simp add: power_add)
  also have "\<dots> \<le> 2 ^ (nat (bitlen p - 1) + s)"
    by (rule power_increasing [OF ex]) simp
  also have "\<dots> = 2 ^ nat (bitlen p - 1) * 2 ^ s" by (simp add: power_add)
  also have "\<dots> \<le> p * 2 ^ s" using pl by (simp add: mult_right_mono)
  finally have "(2::int) ^ 54 * q \<le> p * 2 ^ s" .
  then have "(2::int) ^ 54 * q div q \<le> p * 2 ^ s div q"
    by (rule zdiv_mono1) (rule q)
  moreover have "(2::int) ^ 54 * q div q = 2 ^ 54"
    using q by (simp only: nonzero_mult_div_cancel_right) 
  ultimately show ?thesis by (simp add: s_def)
qed

lemma f64_div_upper:
  assumes a: "0 \<le> fst a" and b: "0 < fst b"
  shows "f64_val (f64_div a b) \<le> f64_val a / f64_val b * (1 + 1 / 2 ^ 53)"
proof (cases "fst a = 0")
  case True
  have "f64_val (f64_div a b) = 0" by (rule f64_div_zero [OF True])
  moreover have "f64_val a = 0" using True by (simp add: f64_val_def)
  ultimately show ?thesis by simp
next
  case False
  with a have p: "0 < fst a" by simp
  define s where "s = nat (bitlen (fst b) - bitlen (fst a) + 55)"
  define n where "n = fst a * 2 ^ s"
  define d where "d = n div fst b"
  define t where "t = 2 * d + (if n mod fst b = 0 then 0 else 1)"
  define E where "E = snd a - snd b - int s - 1"
  define x where "x = 2 * real_of_int n / real_of_int (fst b)"
  have div: "f64_div a b = round53 t E"
    using p b by (simp add: f64_div_def Let_def s_def n_def d_def t_def E_def)
  have d54: "2 ^ 54 \<le> d"
    using quotient_big [OF p b] by (simp add: d_def n_def s_def)
  then have big: "2 ^ 55 \<le> t" by (simp add: t_def)
  have nd: "n = d * fst b + n mod fst b"
    unfolding d_def by (rule div_mult_mod_eq [symmetric])
  have bpos: "0 < real_of_int (fst b)" using b by simp
  have x: "real_of_int t \<le> x \<or> (odd t \<and> real_of_int t - 1 < x)"
  proof (cases "n mod fst b = 0")
    case True
    with nd have "n = d * fst b" by simp
    then have "real_of_int n = real_of_int d * real_of_int (fst b)" by simp
    then have "x = 2 * real_of_int d" using bpos by (simp add: x_def)
    with True show ?thesis by (simp add: t_def)
  next
    case False
    have "0 \<le> n mod fst b" using b by simp
    with False have "0 < n mod fst b" by linarith
    with nd have "d * fst b < n" by linarith
    then have "real_of_int (d * fst b) < real_of_int n" by (simp only: of_int_less_iff)
    then have "real_of_int d * real_of_int (fst b) < real_of_int n" by simp
    then have "real_of_int d < real_of_int n / real_of_int (fst b)"
      using bpos by (simp add: pos_less_divide_eq)
    then have "2 * real_of_int d < x" by (simp add: x_def)
    moreover have "odd t" using False by (simp add: t_def)
    moreover have "real_of_int t - 1 = 2 * real_of_int d" using False by (simp add: t_def)
    ultimately show ?thesis by simp
  qed
  have scale: "x * 2 powr real_of_int E = f64_val a / f64_val b"
  proof -
    have "(2::real) ^ s = 2 powr real s" by (simp add: powr_realpow)
    then have "x = real_of_int (fst a) / real_of_int (fst b) * (2 powr 1 * 2 powr real s)"
      by (simp add: x_def n_def)
    also have "2 powr 1 * 2 powr real s = (2::real) powr (1 + real s)"
      by (simp only: powr_add)
    finally have "x * 2 powr real_of_int E
        = real_of_int (fst a) / real_of_int (fst b) * (2 powr (1 + real s) * 2 powr real_of_int E)"
      by simp
    also have "2 powr (1 + real s) * 2 powr real_of_int E = (2::real) powr (1 + real s + real_of_int E)"
      by (simp only: powr_add)
    also have "1 + real s + real_of_int E = real_of_int (snd a) - real_of_int (snd b)"
      by (simp add: E_def)
    also have "(2::real) powr (real_of_int (snd a) - real_of_int (snd b))
        = 2 powr real_of_int (snd a) / 2 powr real_of_int (snd b)"
      by (simp only: powr_diff)
    finally show ?thesis by (simp add: f64_val_def)
  qed
  from round53_upper [OF big x, of E] show ?thesis
    by (simp only: div scale)
qed

text \<open>A volume below such a quotient has a notional within one part in 2^53 of the numerator.\<close>

lemma clamped_notional:
  assumes entry_pos: "f64_lt f64_zero entry"
    and nonneg: "f64_le f64_zero X"
    and le: "f64_le v (f64_div X entry)"
  shows "f64_val v * f64_val entry \<le> f64_val X * (1 + 1 / 2 ^ 53)"
proof -
  from entry_pos have e: "0 < fst entry" by (simp only: f64_lt_zero_iff)
  then have ev: "0 < f64_val entry" by (simp add: f64_val_def)
  from nonneg have "0 \<le> f64_val X" by (simp add: f64_le_val f64_zero_def f64_val_def)
  then have x: "0 \<le> fst X" by (simp add: f64_val_def zero_le_mult_iff)
  from le have "f64_val v \<le> f64_val (f64_div X entry)" by (simp only: f64_le_val)
  also have "\<dots> \<le> f64_val X / f64_val entry * (1 + 1 / 2 ^ 53)"
    by (rule f64_div_upper [OF x e])
  finally have "f64_val v * f64_val entry
      \<le> f64_val X / f64_val entry * (1 + 1 / 2 ^ 53) * f64_val entry"
    using ev by (simp only: mult_le_cancel_right_pos)
  also have "\<dots> = f64_val X * (1 + 1 / 2 ^ 53)" using ev by simp
  finally show ?thesis .
qed

subsection \<open>The default configuration and the example managers\<close>

lemma f64_defaults:
  "f64_of_rat 2 100 = (5764607523034235, - 58)"
  "f64_of_rat 10 100 = (7205759403792794, - 56)"
  "f64_of_rat 15 100 = (5404319552844595, - 55)"
  "f64_of_rat 5 100 = (7205759403792794, - 57)"
  by code_simp+

lemma update_fresh: "map_of al k = None \<Longrightarrow> AList.update k v al = al @ [(k, v)]"
  by (induction al) (auto split: if_splits)

lemma f64_sum_snoc: "f64_sum (xs @ [x]) = f64_add (f64_sum xs) x"
  by (simp add: f64_sum_def)

text \<open>The result of the sizing when entry and stop differ: the smallest of the three quotients.\<close>

lemma calculate_position_size_f64_clamped:
  assumes entry_pos: "f64_lt f64_zero entry" and ne: "\<not> f64_eq entry stop"
  shows "calculate_position_size_f64 self entry stop conf
     = Inr (f64_min
              (f64_min
                 (f64_div (f64_mul (f64_mul (total_capital (config self)) (risk_per_trade (config self))) conf)
                          (f64_abs (f64_sub entry stop)))
                 (f64_div (f64_mul (total_capital (config self)) (max_position_size (config self))) entry))
              (f64_div (get_available_capital_f64 self) entry))"
proof -
  from ne have rpu: "\<not> f64_eq (f64_abs (f64_sub entry stop)) f64_zero"
    by (simp only: f64_sub_zero_iff not_False_eq_True)
  from entry_pos have nz: "\<not> f64_eq entry f64_zero"
    by (simp add: f64_eq_zero_iff f64_lt_zero_iff)
  from rpu nz show ?thesis
    by (simp add: calculate_position_size_f64_def Let_def)
qed

lemma available_10000: "get_available_capital_f64 manager_10000 = (10000, 0)"
  apply (simp add: get_available_capital_f64_def get_current_capital_f64_def capital_in_use_f64_def
      f64_sum_def manager_10000_def RiskManager_init_f64_def RiskConfig_init_f64_def)
  apply code_simp
  done

lemma available_whole: "get_available_capital_f64 manager_whole = (10000, 0)"
  apply (simp add: get_available_capital_f64_def get_current_capital_f64_def capital_in_use_f64_def
      f64_sum_def manager_whole_def RiskManager_init_f64_def RiskConfig_init_f64_def)
  apply code_simp
  done

lemma sized_15:
  "calculate_position_size_f64 manager_10000 (15, 0) (14, 0) (1, 0) = Inr (4691249611844267, - 46)"
proof -
  have pos: "f64_lt f64_zero (15, 0)" by code_simp
  have ne: "\<not> f64_eq (15, 0) (14, 0)" by code_simp
  show ?thesis
    unfolding calculate_position_size_f64_clamped [OF pos ne] available_10000
    by code_simp
qed

lemma sized_45000:
  "calculate_position_size_f64 manager_10000 (45000, 0) (44000, 0) (1, 0)
     = Inr (6405119470038039, - 58)"
proof -
  have pos: "f64_lt f64_zero (45000, 0)" by code_simp
  have ne: "\<not> f64_eq (45000, 0) (44000, 0)" by code_simp
  show ?thesis
    unfolding calculate_position_size_f64_clamped [OF pos ne] available_10000
    by code_simp
qed

lemma sized_short:
  "calculate_position_size_f64 manager_10000 (100, 0) (110, 0) (1, 0) = Inr (5629499534213120, - 49)"
proof -
  have pos: "f64_lt f64_zero (100, 0)" by code_simp
  have ne: "\<not> f64_eq (100, 0) (110, 0)" by code_simp
  show ?thesis
    unfolding calculate_position_size_f64_clamped [OF pos ne] available_10000
    by code_simp
qed

lemma sized_long:
  "calculate_position_size_f64 manager_whole (145, 0) (144, 0) (1, 0) = Inr (4853016839838897, - 46)"
proof -
  have pos: "f64_lt f64_zero (145, 0)" by code_simp
  have ne: "\<not> f64_eq (145, 0) (144, 0)" by code_simp
  show ?thesis
    unfolding calculate_position_size_f64_clamped [OF pos ne] available_whole
    by code_simp
qed


lemma opened_short:
  "open_position_f64 manager_10000 ''short_1'' ''BTC/USD'' ''sell'' (100, 0) (5629499534213120, - 49)
       (110, 0) (85, 0) (75, 0) (60, 0) 0 = Inr (manager_short short_1, True)"
  by code_simp

lemma marked_short:
  "update_position_price_f64 (manager_short short_1) ''short_1'' (1100, 0)
     = Inr (manager_short_marked, ())"
  by code_simp

lemma opened_long:
  "open_position_f64 manager_whole ''long_1'' ''BTC/USD'' ''buy'' (145, 0) (4853016839838897, - 46)
       (144, 0) (150, 0) (155, 0) (160, 0) 0 = Inr (manager_long, True)"
  by code_simp

lemmas manager_defs =
  manager_10000_def manager_whole_def manager_short_def manager_short_marked_def manager_long_def
  short_1_def long_1_def Position_init_f64_def RiskManager_init_f64_def RiskConfig_init_f64_def

lemmas capital_defs =
  get_available_capital_f64_def get_current_capital_f64_def capital_in_use_f64_def f64_sum_def
  open_volume_f64_def

lemma available_short: "get_available_capital_f64 (manager_short short_1) = (4947802324992000, - 39)"
  apply (simp add: capital_defs manager_defs)
  apply code_simp
  done

lemma available_short_marked: "get_available_capital_f64 manager_short_marked = (- 8796093022208000, - 43)"
  apply (simp add: capital_defs manager_defs)
  apply code_simp
  done

lemma available_long: "get_available_capital_f64 manager_long = (- 1, - 39)"
  apply (simp add: capital_defs manager_defs)
  apply code_simp
  done

lemma in_use_long: "capital_in_use_f64 manager_long = (5497558138880001, - 39)"
  apply (simp add: capital_defs manager_defs)
  apply code_simp
  done

subsection \<open>Position sizing\<close>

text \<open>
  C5, as stated, fails in two ways.  With a capital of 10000 and the default
  configuration, an entry at 15 and a stop at 14 give the volume 66.66666666666667 (the
  quotient 1000 / 15, rounded up): its notional, 1000 + 5/2^46, is above the bound of a
  tenth of the capital, with the product as the program computes it and with the exact
  product.  And where entry and stop coincide the volume is 0 whatever the available
  capital: in the manager whose short position was marked at 1100 the available capital is
  -1000, below the notional 0.
\<close>

theorem calculate_position_size_notional_above_cap:
  "calculate_position_size_f64 manager_10000 (15, 0) (14, 0) (1, 0) = Inr (4691249611844267, - 46)
   \<and> f64_val (f64_mul (max_position_size (config manager_10000))
                        (total_capital (config manager_10000))) = 1000
   \<and> \<not> f64_le (f64_mul (4691249611844267, - 46) (15, 0))
              (f64_mul (max_position_size (config manager_10000)) (total_capital (config manager_10000)))
   \<and> f64_val (4691249611844267, - 46) * f64_val (15, 0) = 1000 + 5 / 2 ^ 46
   \<and> \<not> f64_val (4691249611844267, - 46) * f64_val (15, 0)
         \<le> f64_val (max_position_size (config manager_10000))
            * f64_val (total_capital (config manager_10000))
   \<and> calculate_position_size_f64 manager_short_marked (100, 0) (100, 0) (1, 0) = Inr f64_zero
   \<and> \<not> f64_le (f64_mul f64_zero (100, 0)) (get_available_capital_f64 manager_short_marked)"
proof -
  have cap: "f64_mul (max_position_size (config manager_10000)) (total_capital (config manager_10000))
      = (8796093022208000, - 43)"
    by code_simp
  have cap_val: "f64_val (8796093022208000, - 43) = 1000"
    by (simp add: f64_val_def powr_minus)
  have above: "\<not> f64_le (f64_mul (4691249611844267, - 46) (15, 0)) (8796093022208000, - 43)"
    by code_simp
  have notional: "f64_val (4691249611844267, - 46) * f64_val (15, 0) = 1000 + 5 / 2 ^ 46"
    by (simp add: f64_val_def powr_minus)
  have exact_cap: "f64_val (max_position_size (config manager_10000))
            * f64_val (total_capital (config manager_10000)) = 1000 + 4000 / 2 ^ 56"
    by (simp add: manager_defs f64_defaults f64_val_def powr_minus)
  have exceeds: "\<not> (1000 + 5 / 2 ^ 46 :: real) \<le> 1000 + 4000 / 2 ^ 56"
    by simp
  have "f64_eq (100, 0) (100, 0)" by code_simp
  then have "f64_eq (f64_abs (f64_sub (100, 0) (100, 0))) f64_zero"
    by (simp only: f64_sub_zero_iff)
  then have flat: "calculate_position_size_f64 manager_short_marked (100, 0) (100, 0) (1, 0) = Inr f64_zero"
    by (simp add: calculate_position_size_f64_def Let_def)
  have below: "\<not> f64_le (f64_mul f64_zero (100, 0)) (- 8796093022208000, - 43)"
    by code_simp
  from sized_15 cap cap_val above notional exact_cap exceeds flat below available_short_marked
  show ?thesis by simp
qed

text \<open>
  C5 (amended): for an entry price above 0, \<open>calculate_position_size\<close> returns 0 when entry
  and stop are equal, and otherwise the smallest of the three quotients
  (total capital \<times> risk per trade \<times> confidence) / |entry - stop|,
  (total capital \<times> max position size) / entry and available capital / entry, every
  operation rounded to binary64; in that second case the volume is at most the second and
  at most the third quotient, as the program computes them, and its notional (the exact
  product of the volume and the entry price) is above neither
  total capital \<times> max position size (as computed) nor the available capital by more than
  one part in 2^53, where that bound is not negative.
\<close>

theorem calculate_position_size_spec:
  assumes entry_pos: "f64_lt f64_zero entry"
  shows "(f64_eq entry stop \<longrightarrow> calculate_position_size_f64 self entry stop conf = Inr f64_zero)
  \<and> (\<not> f64_eq entry stop \<longrightarrow>
       (\<exists>v. calculate_position_size_f64 self entry stop conf = Inr v
         \<and> v = f64_min
               (f64_min
                  (f64_div (f64_mul (f64_mul (total_capital (config self)) (risk_per_trade (config self))) conf)
                           (f64_abs (f64_sub entry stop)))
                  (f64_div (f64_mul (total_capital (config self)) (max_position_size (config self))) entry))
               (f64_div (get_available_capital_f64 self) entry)
         \<and> f64_le v (f64_div (f64_mul (total_capital (config self)) (max_position_size (config self))) entry)
         \<and> f64_le v (f64_div (get_available_capital_f64 self) entry)
         \<and> (f64_le f64_zero (f64_mul (total_capital (config self)) (max_position_size (config self)))
              \<longrightarrow> f64_val v * f64_val entry
                   \<le> f64_val (f64_mul (total_capital (config self)) (max_position_size (config self)))
                      * (1 + 1 / 2 ^ 53))
         \<and> (f64_le f64_zero (get_available_capital_f64 self)
              \<longrightarrow> f64_val v * f64_val entry
                   \<le> f64_val (get_available_capital_f64 self) * (1 + 1 / 2 ^ 53))))"
proof (intro conjI impI)
  assume "f64_eq entry stop"
  then have "f64_eq (f64_abs (f64_sub entry stop)) f64_zero"
    by (simp only: f64_sub_zero_iff)
  then show "calculate_position_size_f64 self entry stop conf = Inr f64_zero"
    by (simp add: calculate_position_size_f64_def Let_def)
next
  assume ne: "\<not> f64_eq entry stop"
  let ?a = "f64_div (f64_mul (f64_mul (total_capital (config self)) (risk_per_trade (config self))) conf)
                    (f64_abs (f64_sub entry stop))"
  let ?cap = "f64_mul (total_capital (config self)) (max_position_size (config self))"
  let ?avail = "get_available_capital_f64 self"
  let ?v = "f64_min (f64_min ?a (f64_div ?cap entry)) (f64_div ?avail entry)"
  have res: "calculate_position_size_f64 self entry stop conf = Inr ?v"
    by (rule calculate_position_size_f64_clamped [OF entry_pos ne])
  have le_b: "f64_le ?v (f64_div ?cap entry)"
    by (rule f64_le_trans [OF f64_min_le1 f64_min_le2])
  have le_c: "f64_le ?v (f64_div ?avail entry)"
    by (rule f64_min_le2)
  have n_b: "f64_le f64_zero ?cap \<longrightarrow> f64_val ?v * f64_val entry \<le> f64_val ?cap * (1 + 1 / 2 ^ 53)"
    using clamped_notional [OF entry_pos _ le_b] by blast
  have n_c: "f64_le f64_zero ?avail \<longrightarrow> f64_val ?v * f64_val entry \<le> f64_val ?avail * (1 + 1 / 2 ^ 53)"
    using clamped_notional [OF entry_pos _ le_c] by blast
  from res le_b le_c n_b n_c
  show "\<exists>v. calculate_position_size_f64 self entry stop conf = Inr v
         \<and> v = f64_min
               (f64_min
                  (f64_div (f64_mul (f64_mul (total_capital (config self)) (risk_per_trade (config self))) conf)
                           (f64_abs (f64_sub entry stop)))
                  (f64_div (f64_mul (total_capital (config self)) (max_position_size (config self))) entry))
               (f64_div (get_available_capital_f64 self) entry)
         \<and> f64_le v (f64_div (f64_mul (total_capital (config self)) (max_position_size (config self))) entry)
         \<and> f64_le v (f64_div (get_available_capital_f64 self) entry)
         \<and> (f64_le f64_zero (f64_mul (total_capital (config self)) (max_position_size (config self)))
              \<longrightarrow> f64_val v * f64_val entry
                   \<le> f64_val (f64_mul (total_capital (config self)) (max_position_size (config self)))
                      * (1 + 1 / 2 ^ 53))
         \<and> (f64_le f64_zero (get_available_capital_f64 self)
              \<longrightarrow> f64_val v * f64_val entry
                   \<le> f64_val (get_available_capital_f64 self) * (1 + 1 / 2 ^ 53))"
    by blast
qed

text \<open>
  The scenario of the specification: capital 10000, risk per trade 0.02, confidence 1,
  entry 45000, stop 44000.  The risk budget alone would give the double 0.2; the cap of a
  tenth of the capital gives the double nearest to 1000 / 45000, which is
  0.022222222222222223.
\<close>

theorem calculate_position_size_scenario:
  "f64_lt f64_zero (45000, 0)
   \<and> \<not> f64_eq (45000, 0) (44000, 0)
   \<and> calculate_position_size_f64 manager_10000 (45000, 0) (44000, 0) (1, 0)
       = Inr (6405119470038039, - 58)
   \<and> f64_le (6405119470038039, - 58)
        (f64_div (f64_mul (total_capital (config manager_10000)) (max_position_size (config manager_10000)))
           (45000, 0))
   \<and> f64_le (6405119470038039, - 58) (f64_div (get_available_capital_f64 manager_10000) (45000, 0))
   \<and> f64_le f64_zero (f64_mul (total_capital (config manager_10000)) (max_position_size (config manager_10000)))
   \<and> f64_val (6405119470038039, - 58) * f64_val (45000, 0)
        \<le> f64_val (f64_mul (total_capital (config manager_10000)) (max_position_size (config manager_10000)))
           * (1 + 1 / 2 ^ 53)
   \<and> f64_le f64_zero (get_available_capital_f64 manager_10000)
   \<and> f64_val (6405119470038039, - 58) * f64_val (45000, 0)
        \<le> f64_val (get_available_capital_f64 manager_10000) * (1 + 1 / 2 ^ 53)
   \<and> f64_div (f64_mul (f64_mul (total_capital (config manager_10000))
                                  (risk_per_trade (config manager_10000))) (1, 0))
              (f64_abs (f64_sub (45000, 0) (44000, 0))) = f64_of_rat 2 10
   \<and> 22222 / 1000000 < f64_val (6405119470038039, - 58)
   \<and> f64_val (6405119470038039, - 58) < 22223 / 1000000"
proof -
  have pos: "f64_lt f64_zero (45000, 0)" by code_simp
  have ne: "\<not> f64_eq (45000, 0) (44000, 0)" by code_simp
  from calculate_position_size_spec [OF pos, of "(44000, 0)" manager_10000 "(1, 0)"] ne
  obtain v where v:
    "calculate_position_size_f64 manager_10000 (45000, 0) (44000, 0) (1, 0) = Inr v"
    "f64_le v (f64_div (f64_mul (total_capital (config manager_10000))
                                (max_position_size (config manager_10000))) (45000, 0))"
    "f64_le v (f64_div (get_available_capital_f64 manager_10000) (45000, 0))"
    "f64_le f64_zero (f64_mul (total_capital (config manager_10000)) (max_position_size (config manager_10000)))
       \<longrightarrow> f64_val v * f64_val (45000, 0)
            \<le> f64_val (f64_mul (total_capital (config manager_10000)) (max_position_size (config manager_10000)))
               * (1 + 1 / 2 ^ 53)"
    "f64_le f64_zero (get_available_capital_f64 manager_10000)
       \<longrightarrow> f64_val v * f64_val (45000, 0)
            \<le> f64_val (get_available_capital_f64 manager_10000) * (1 + 1 / 2 ^ 53)"
    by blast
  from v(1) sized_45000 have v_eq: "v = (6405119470038039, - 58)" by simp
  have cap0: "f64_le f64_zero (f64_mul (total_capital (config manager_10000)) (max_position_size (config manager_10000)))"
    by code_simp
  have avail0: "f64_le f64_zero (get_available_capital_f64 manager_10000)"
    unfolding available_10000 by code_simp
  have risk: "f64_div (f64_mul (f64_mul (total_capital (config manager_10000))
                                  (risk_per_trade (config manager_10000))) (1, 0))
              (f64_abs (f64_sub (45000, 0) (44000, 0))) = f64_of_rat 2 10"
    by code_simp
  have lower: "22222 / 1000000 < f64_val (6405119470038039, - 58)"
    by (simp add: f64_val_def powr_minus)
  have upper: "f64_val (6405119470038039, - 58) < 22223 / 1000000"
    by (simp add: f64_val_def powr_minus)
  from v(4) cap0 v_eq
  have n_cap: "f64_val (6405119470038039, - 58) * f64_val (45000, 0)
        \<le> f64_val (f64_mul (total_capital (config manager_10000)) (max_position_size (config manager_10000)))
           * (1 + 1 / 2 ^ 53)"
    by blast
  from v(5) avail0 v_eq
  have n_avail: "f64_val (6405119470038039, - 58) * f64_val (45000, 0)
        \<le> f64_val (get_available_capital_f64 manager_10000) * (1 + 1 / 2 ^ 53)"
    by blast
  from v(2,3) v_eq
  have le: "f64_le (6405119470038039, - 58)
        (f64_div (f64_mul (total_capital (config manager_10000)) (max_position_size (config manager_10000)))
           (45000, 0))"
    "f64_le (6405119470038039, - 58) (f64_div (get_available_capital_f64 manager_10000) (45000, 0))"
    by simp_all
  from pos ne sized_45000 le cap0 n_cap avail0 n_avail risk lower upper show ?thesis
    by (intro conjI)
qed

subsection \<open>Available capital\<close>

text \<open>
  C8, as stated, fails in two ways.  The manager sizes a short position (10 units at 100,
  a tenth of the capital of 10000), opens it, and a price update at 1100 leaves an
  available capital of -1000.  And a manager that may put its whole capital of 10000 into
  one position sizes a long position at 145 (68.96551724137932 units, the quotient
  10000 / 145 rounded up) and opens it: the capital in use is 10000 + 1/2^39, the
  available capital -1/2^39.
\<close>

theorem available_capital_negative:
  "calculate_position_size_f64 manager_10000 (100, 0) (110, 0) (1, 0) = Inr (5629499534213120, - 49)
   \<and> open_position_f64 manager_10000 ''short_1'' ''BTC/USD'' ''sell'' (100, 0) (5629499534213120, - 49)
        (110, 0) (85, 0) (75, 0) (60, 0) 0 = Inr (manager_short short_1, True)
   \<and> update_position_price_f64 (manager_short short_1) ''short_1'' (1100, 0)
        = Inr (manager_short_marked, ())
   \<and> f64_lt (get_available_capital_f64 manager_short_marked) f64_zero
   \<and> f64_val (get_available_capital_f64 manager_short_marked) = - 1000
   \<and> calculate_position_size_f64 manager_whole (145, 0) (144, 0) (1, 0) = Inr (4853016839838897, - 46)
   \<and> open_position_f64 manager_whole ''long_1'' ''BTC/USD'' ''buy'' (145, 0) (4853016839838897, - 46)
        (144, 0) (150, 0) (155, 0) (160, 0) 0 = Inr (manager_long, True)
   \<and> f64_lt (get_available_capital_f64 manager_long) f64_zero
   \<and> f64_val (get_available_capital_f64 manager_long) = - 1 / 2 ^ 39"
proof -
  have "f64_lt (- 8796093022208000, - 43) f64_zero" by code_simp
  moreover have "f64_val (- 8796093022208000, - 43) = - 1000"
    by (simp add: f64_val_def powr_minus)
  moreover have "f64_lt (- 1, - 39) f64_zero" by code_simp
  moreover have "f64_val (- 1, - 39) = - 1 / 2 ^ 39"
    by (simp add: f64_val_def powr_minus)
  ultimately show ?thesis
    using sized_short opened_short marked_short available_short_marked sized_long opened_long
      available_long
    by simp
qed

text \<open>
  C8 (amended): opening a position under a new id, at an entry price above 0 and different
  from the stop, with the volume that \<open>calculate_position_size\<close> returned for that entry.
  The volume is at most the quotient available capital / entry, as the program computes
  it: the clamp comes before the mutation, and the notional of the new position (the exact
  product of the volume and the entry price) is above an available capital that is not
  negative by at most one part in 2^53.  \<open>open_position\<close> appends the new position and
  leaves the rest of the manager as it is, so the capital in use grows by entry \<times> volume
  (rounded) and the unrealized profit of the new position, 0, is added to the current
  capital.  Nothing is said of the sign of the available capital afterwards, nor of price
  updates and closes.
\<close>

theorem open_position_sized:
  assumes entry_pos: "f64_lt f64_zero entry"
    and ne: "\<not> f64_eq entry stop"
    and sized: "calculate_position_size_f64 self entry stop conf = Inr vol"
    and fresh: "map_of (positions self) pid = None"
    and opened: "open_position_f64 self pid pr sd entry vol stop tp1 tp2 tp3 now = Inr (self', True)"
  shows "f64_le vol (f64_div (get_available_capital_f64 self) entry)
     \<and> self' = self\<lparr>positions := positions self
                         @ [(pid, Position_init_f64 pid pr sd entry vol stop tp1 tp2 tp3 now)]\<rparr>
     \<and> capital_in_use_f64 self'
         = f64_add (capital_in_use_f64 self)
             (f64_mul entry (get_open_volume_f64 vol f64_zero f64_zero f64_zero))
     \<and> get_current_capital_f64 self'
         = f64_add (f64_add (total_capital (config self)) (total_realized_pnl self))
             (f64_add (f64_sum (map (\<lambda>(pid, p). unrealized_pnl p) (positions self))) f64_zero)
     \<and> get_available_capital_f64 self'
         = f64_sub (get_current_capital_f64 self') (capital_in_use_f64 self')
     \<and> (f64_le f64_zero (get_available_capital_f64 self)
          \<longrightarrow> f64_val vol * f64_val entry
               \<le> f64_val (get_available_capital_f64 self) * (1 + 1 / 2 ^ 53))"
proof -
  from sized calculate_position_size_f64_clamped [OF entry_pos ne, of self conf]
  have "vol = f64_min
               (f64_min
                  (f64_div (f64_mul (f64_mul (total_capital (config self)) (risk_per_trade (config self))) conf)
                           (f64_abs (f64_sub entry stop)))
                  (f64_div (f64_mul (total_capital (config self)) (max_position_size (config self))) entry))
               (f64_div (get_available_capital_f64 self) entry)"
    by simp
  then have clamp: "f64_le vol (f64_div (get_available_capital_f64 self) entry)"
    by (simp only: f64_min_le2)
  from opened fresh
  have self': "self' = self\<lparr>positions := positions self
                         @ [(pid, Position_init_f64 pid pr sd entry vol stop tp1 tp2 tp3 now)]\<rparr>"
    by (auto simp: open_position_f64_def Let_def update_fresh
          split: sum.splits prod.splits if_splits)
  have in_use: "capital_in_use_f64 self'
         = f64_add (capital_in_use_f64 self)
             (f64_mul entry (get_open_volume_f64 vol f64_zero f64_zero f64_zero))"
    by (simp add: self' capital_in_use_f64_def f64_sum_snoc Position_init_f64_def open_volume_f64_def)
  have current: "get_current_capital_f64 self'
         = f64_add (f64_add (total_capital (config self)) (total_realized_pnl self))
             (f64_add (f64_sum (map (\<lambda>(pid, p). unrealized_pnl p) (positions self))) f64_zero)"
    by (simp add: self' get_current_capital_f64_def f64_sum_snoc Position_init_f64_def)
  have available: "get_available_capital_f64 self'
         = f64_sub (get_current_capital_f64 self') (capital_in_use_f64 self')"
    by (simp add: get_available_capital_f64_def)
  have notional: "f64_le f64_zero (get_available_capital_f64 self)
          \<longrightarrow> f64_val vol * f64_val entry
               \<le> f64_val (get_available_capital_f64 self) * (1 + 1 / 2 ^ 53)"
    using clamped_notional [OF entry_pos _ clamp] by blast
  from clamp self' in_use current available notional show ?thesis by blast
qed

text \<open>
  The short position of the example: 10 units against a quotient of 100; after it is
  opened, 1000 are in use and 9000 remain available.
\<close>

theorem open_position_sized_witness:
  "f64_lt f64_zero (100, 0)
   \<and> \<not> f64_eq (100, 0) (110, 0)
   \<and> calculate_position_size_f64 manager_10000 (100, 0) (110, 0) (1, 0) = Inr (5629499534213120, - 49)
   \<and> map_of (positions manager_10000) ''short_1'' = None
   \<and> open_position_f64 manager_10000 ''short_1'' ''BTC/USD'' ''sell'' (100, 0) (5629499534213120, - 49)
        (110, 0) (85, 0) (75, 0) (60, 0) 0 = Inr (manager_short short_1, True)
   \<and> f64_le (5629499534213120, - 49) (f64_div (get_available_capital_f64 manager_10000) (100, 0))
   \<and> capital_in_use_f64 (manager_short short_1)
       = f64_add (capital_in_use_f64 manager_10000)
           (f64_mul (100, 0) (get_open_volume_f64 (5629499534213120, - 49) f64_zero f64_zero f64_zero))
   \<and> f64_le f64_zero (get_available_capital_f64 manager_10000)
   \<and> f64_val (5629499534213120, - 49) * f64_val (100, 0)
        \<le> f64_val (get_available_capital_f64 manager_10000) * (1 + 1 / 2 ^ 53)
   \<and> f64_val (5629499534213120, - 49) = 10
   \<and> f64_val (f64_div (get_available_capital_f64 manager_10000) (100, 0)) = 100
   \<and> f64_val (capital_in_use_f64 (manager_short short_1)) = 1000
   \<and> f64_val (get_available_capital_f64 (manager_short short_1)) = 9000"
proof -
  have pos: "f64_lt f64_zero (100, 0)" by code_simp
  have ne: "\<not> f64_eq (100, 0) (110, 0)" by code_simp
  have fresh: "map_of (positions manager_10000) ''short_1'' = None"
    by (simp add: manager_defs)
  from open_position_sized [OF pos ne sized_short fresh opened_short]
  have concl: "f64_le (5629499534213120, - 49) (f64_div (get_available_capital_f64 manager_10000) (100, 0))"
    "capital_in_use_f64 (manager_short short_1)
       = f64_add (capital_in_use_f64 manager_10000)
           (f64_mul (100, 0) (get_open_volume_f64 (5629499534213120, - 49) f64_zero f64_zero f64_zero))"
    "f64_le f64_zero (get_available_capital_f64 manager_10000)
       \<longrightarrow> f64_val (5629499534213120, - 49) * f64_val (100, 0)
            \<le> f64_val (get_available_capital_f64 manager_10000) * (1 + 1 / 2 ^ 53)"
    by blast+
  have avail0: "f64_le f64_zero (get_available_capital_f64 manager_10000)"
    unfolding available_10000 by code_simp
  from concl(3) avail0
  have notional: "f64_val (5629499534213120, - 49) * f64_val (100, 0)
        \<le> f64_val (get_available_capital_f64 manager_10000) * (1 + 1 / 2 ^ 53)"
    by blast
  have vol: "f64_val (5629499534213120, - 49) = 10"
    by (simp add: f64_val_def powr_minus)
  have quot: "f64_div (get_available_capital_f64 manager_10000) (100, 0) = (7036874417766400, - 46)"
    unfolding available_10000 by code_simp
  have quot_val: "f64_val (7036874417766400, - 46) = 100"
    by (simp add: f64_val_def powr_minus)
  have in_use: "capital_in_use_f64 (manager_short short_1) = (8796093022208000, - 43)"
    apply (simp add: capital_defs manager_defs)
    apply code_simp
    done
  have in_use_val: "f64_val (8796093022208000, - 43) = 1000"
    by (simp add: f64_val_def powr_minus)
  have avail_val: "f64_val (4947802324992000, - 39) = 9000"
    by (simp add: f64_val_def powr_minus)
  from pos ne sized_short fresh opened_short concl(1,2) avail0 notional vol quot quot_val in_use
    in_use_val available_short avail_val
  show ?thesis by simp
qed

section \<open>Staged closes\<close>

text \<open>
  In exact arithmetic the three slices add up to the volume: once the three levels are
  recorded, the open volume is 0 and \<open>close_position_partial\<close> takes the \<open>CLOSED\<close>
  branch.
\<close>

lemma staged_close_exact:
  "get_open_volume (p\<lparr>volume_closed_tp1 := volume p * (30 / 100),
                       volume_closed_tp2 := volume p * (40 / 100),
                       volume_closed_tp3 := volume p * (30 / 100)\<rparr>) = 0"
  by (simp add: get_open_volume_def)

lemma third_close_exact:
  assumes live: "map_of (positions self) pid = Some p"
    and first: "volume_closed_tp1 p = volume p * (30 / 100)"
    and second: "volume_closed_tp2 p = volume p * (40 / 100)"
  shows "\<exists>self'. close_position_partial self pid 3 close_price = Inr (self', volume p * (30 / 100))
     \<and> map_of (positions self') pid = None
     \<and> map (\<lambda>q. (position_id q, status q)) (closed_positions self')
         = map (\<lambda>q. (position_id q, status q)) (closed_positions self) @ [(position_id p, CLOSED)]"
  using assms
  by (simp add: close_position_partial_def Let_def get_open_volume_def set_position_def
        move_to_closed_def map_of_update_self map_of_delete_self)

text \<open>
  The doubles of the literals, as Python prints them with \<open>float.hex\<close>:
  0.30 is \<open>0x1.3333333333333p-2\<close>, 0.40 is \<open>0x1.999999999999ap-2\<close>.
\<close>

lemma f64_literals:
  "f64_of_rat 30 100 = (5404319552844595, - 54)"
  "f64_of_rat 40 100 = (7205759403792794, - 54)"
  by code_simp+

text \<open>
  C6 (the code against the claim): for a position of volume 1.0 the three levels close
  0.3, 0.4 and 0.3, and the open volume that \<open>close_position_partial\<close> then compares
  with 0 is 1.0 - 0.3 - 0.4 - 0.3 in binary64, which is -1/2^54 (about -5.55e-17) and not 0:
  the position stays \<open>PARTIALLY_CLOSED\<close> among the live positions and never reaches
  \<open>CLOSED\<close>.
\<close>

theorem staged_close_leaves_residual:
  "staged_residual_f64 (1, 0) = (- 1, - 54)
   \<and> f64_val (staged_residual_f64 (1, 0)) = - 1 / 2 ^ 54
   \<and> f64_val (staged_residual_f64 (1, 0)) \<noteq> 0"
proof -
  have r: "staged_residual_f64 (1, 0) = (- 1, - 54)"
    by code_simp
  have "f64_val (- 1, - 54) = - 1 / 2 ^ 54"
    by (simp add: f64_val_def powr_minus)
  with r show ?thesis by simp
qed

end
